theory Spec2Isabelle
  imports Complex_Main
begin

section \<open>Text\<close>

text \<open>
  A Python \<open>str\<close> is a sequence of Unicode code points; a code point is a natural number.
\<close>

type_synonym cp = nat
type_synonym ustr = "cp list"

text \<open>
  The string literals of the source are Czech. They are written here in ASCII: a letter
  followed by \<open>/\<close> carries an acute accent, by \<open>^\<close> a caron, by \<open>*\<close> a ring. \<open>cz\<close> decodes
  such a literal into its code points (the precomposed letters the source file holds);
  any other character stands for itself.
\<close>

fun accent :: "char \<Rightarrow> char \<Rightarrow> cp option" where
  "accent m c =
     (if m = CHR ''/'' then
        (if c = CHR ''a'' then Some 0xE1 else if c = CHR ''e'' then Some 0xE9
         else if c = CHR ''i'' then Some 0xED else if c = CHR ''o'' then Some 0xF3
         else if c = CHR ''u'' then Some 0xFA else if c = CHR ''y'' then Some 0xFD
         else None)
      else if m = CHR ''^'' then
        (if c = CHR ''c'' then Some 0x10D else if c = CHR ''d'' then Some 0x10F
         else if c = CHR ''e'' then Some 0x11B else if c = CHR ''n'' then Some 0x148
         else if c = CHR ''r'' then Some 0x159 else if c = CHR ''s'' then Some 0x161
         else if c = CHR ''t'' then Some 0x165 else if c = CHR ''z'' then Some 0x17E
         else if c = CHR ''C'' then Some 0x10C
         else None)
      else if m = CHR ''*'' then (if c = CHR ''u'' then Some 0x16F else None)
      else None)"

fun cz :: "string \<Rightarrow> ustr" where
  "cz [] = []"
| "cz [c] = [of_char c]"
| "cz (c # m # cs) =
     (case accent m c of Some k \<Rightarrow> k # cz cs | None \<Rightarrow> of_char c # cz (m # cs))"

text \<open>
  What the code takes from Python's Unicode tables: \<open>str.lower\<close>, \<open>str.isspace\<close> (the
  class \<open>\s\<close> of \<open>re\<close> and the characters \<open>str.strip\<close> removes), the classes \<open>\d\<close> and
  \<open>\w\<close> of \<open>re\<close>, the code points that the character class of \<open>extract_keywords\<close>
  (\<open>a\<close> to \<open>z\<close>, a-acute to z-caron, \<open>0\<close> to \<open>9\<close>) matches under \<open>re.IGNORECASE\<close>,
  and \<open>str(x)\<close> of a decoded JSON value that is not a string. They are parameters of
  the model: every theorem holds for all tables.
\<close>

datatype json =
  JNull | JBool bool | JInt int | JFloat rat | JStr ustr
| JArr "json list" | JObj "(ustr \<times> json) list"

record pyrt =
  lower_table :: "ustr \<Rightarrow> ustr"
  isspace :: "cp \<Rightarrow> bool"
  re_digit :: "cp \<Rightarrow> bool"
  re_word :: "cp \<Rightarrow> bool"
  kw_char :: "cp \<Rightarrow> bool"
  py_repr :: "json \<Rightarrow> ustr"

text \<open>\<open>s.lower()\<close>: the empty string has no character to map.\<close>

definition str_lower :: "pyrt \<Rightarrow> ustr \<Rightarrow> ustr" where
  "str_lower U s = (if s = [] then [] else lower_table U s)"

text \<open>\<open>t.startswith(p)\<close> and \<open>p in t\<close> on strings.\<close>

fun startswith :: "'a list \<Rightarrow> 'a list \<Rightarrow> bool" where
  "startswith t [] = True"
| "startswith [] (p # ps) = False"
| "startswith (c # cs) (p # ps) = (c = p \<and> startswith cs ps)"

fun contains :: "'a list \<Rightarrow> 'a list \<Rightarrow> bool" where
  "contains p [] = (p = [])"
| "contains p (c # cs) = (startswith (c # cs) p \<or> contains p cs)"

text \<open>
  \<open>normalize_text\<close>: \<open>re.sub(r"\s+", " ", text.strip())\<close>. \<open>collapse\<close> replaces every
  maximal run of white space by one space; its flag says that the previous character was
  white space.
\<close>

definition strip :: "pyrt \<Rightarrow> ustr \<Rightarrow> ustr" where
  "strip U s = rev (dropWhile (isspace U) (rev (dropWhile (isspace U) s)))"

fun collapse :: "pyrt \<Rightarrow> bool \<Rightarrow> ustr \<Rightarrow> ustr" where
  "collapse U prev [] = []"
| "collapse U prev (c # cs) =
     (if isspace U c then (if prev then collapse U True cs else 0x20 # collapse U True cs)
      else c # collapse U False cs)"

definition normalize_text :: "pyrt \<Rightarrow> ustr \<Rightarrow> ustr" where
  "normalize_text U text = collapse U False (strip U text)"

section \<open>Traffic light and heuristic risk score\<close>

datatype light = Green | Yellow | Red

definition traffic_light_from_score :: "int \<Rightarrow> light" where
  "traffic_light_from_score score =
     (if score \<ge> 70 then Red else if score \<ge> 35 then Yellow else Green)"

definition red_terms :: "ustr list" where
  "red_terms =
    [cz ''policie'', cz ''trestni/ ozna/meni/'', cz ''obvine^n'', cz ''obz^aloba'', cz ''vy/pove^d^'',
     cz ''zadrz^eni/'', cz ''soud'', cz ''exekuce'', cz ''pr^edvola/ni/'', cz ''insolvence'',
     cz ''spra/vni/ r^i/zeni/'', cz ''vyhroz^uje'', cz ''na/sili/'', cz ''napadeni/'', cz ''ubli/z^eni/'',
     cz ''zabil'', cz ''vraz^da'', cz ''usmrceni/'', cz ''kra/dez^'', cz ''podvod'',
     cz ''dluh'', cz ''z^aloba'', cz ''vy/zva k u/hrade^'']"

definition yellow_terms :: "ustr list" where
  "yellow_terms =
    [cz ''smlouva'', cz ''vy/pove^d^'', cz ''reklamace'', cz ''vra/ceni/'', cz ''pokuta'',
     cz ''na/hrada s^kody'', cz ''prona/jem'', cz ''na/jem'', cz ''rozvod'', cz ''de^dictvi/'',
     cz ''dohoda'', cz ''zame^stnavatel'', cz ''odstoupeni/'', cz ''pu*jc^ka'']"

text \<open>
  The two loops \<open>for term in terms: if term in t: score += w\<close>.
\<close>

fun add_terms :: "int \<Rightarrow> ustr \<Rightarrow> ustr list \<Rightarrow> int \<Rightarrow> int" where
  "add_terms w t [] score = score"
| "add_terms w t (term # terms) score =
     add_terms w t terms (if contains term t then score + w else score)"

text \<open>
  \<open>re.findall(r"\b(\d{1,3}(?:[ .]\d{3})+|\d{4,})\b", t)\<close> is non-empty exactly when the
  pattern matches somewhere: the engine backtracks over every way to match. A match
  from position \<open>i\<close> of length \<open>n\<close> needs a word boundary at \<open>i\<close> and at \<open>i + n\<close>.
  \<open>groups\<close> lists the lengths that \<open>(?:[ .]\d{3})*\<close> can consume at the head of its
  argument, \<open>money_lengths\<close> the lengths the whole alternative can.
\<close>

definition word_boundary :: "pyrt \<Rightarrow> ustr \<Rightarrow> nat \<Rightarrow> bool" where
  "word_boundary U t i =
     ((0 < i \<and> i \<le> length t \<and> re_word U (t ! (i - 1))) \<noteq> (i < length t \<and> re_word U (t ! i)))"

fun groups :: "pyrt \<Rightarrow> ustr \<Rightarrow> nat list" where
  "groups U (s # a # b # c # rest) =
     (if (s = 0x20 \<or> s = 0x2E) \<and> re_digit U a \<and> re_digit U b \<and> re_digit U c
      then 0 # map (\<lambda>n. n + 4) (groups U rest) else [0])"
| "groups U rest = [0]"

definition money_lengths :: "pyrt \<Rightarrow> ustr \<Rightarrow> nat list" where
  "money_lengths U s =
     (let k = length (takeWhile (re_digit U) s) in
      concat (map (\<lambda>n. if n \<le> k then map (\<lambda>g. n + g) (filter (\<lambda>g. 0 < g) (groups U (drop n s))) else [])
                  [1, 2, 3])
      @ filter (\<lambda>n. 4 \<le> n) [0..<Suc k])"

definition money :: "pyrt \<Rightarrow> ustr \<Rightarrow> bool" where
  "money U t =
     (\<exists>i \<in> set [0..<Suc (length t)].
        word_boundary U t i \<and> (\<exists>n \<in> set (money_lengths U (drop i t)). word_boundary U t (i + n)))"

definition urgent :: "ustr \<Rightarrow> bool" where
  "urgent t = (contains (cz ''do zi/tra'') t \<or> contains (cz ''dnes'') t \<or> contains (cz ''lhu*t'') t)"

definition heuristic_risk_score :: "pyrt \<Rightarrow> ustr \<Rightarrow> ustr \<Rightarrow> int" where
  "heuristic_risk_score U user_text category =
     (let t = str_lower U user_text;
          score = 10;
          score = add_terms 30 t red_terms score;
          score = add_terms 15 t yellow_terms score;
          score = (if money U t then score + 15 else score);
          score = (if urgent t then score + 15 else score);
          score = (if startswith (str_lower U category) (cz ''trest'') then score + 10 else score)
      in min score 100)"

section \<open>Keyword extraction\<close>

definition CZ_STOPWORDS :: "ustr set" where
  "CZ_STOPWORDS = set
    [cz ''a'', cz ''aby'', cz ''at^'', cz ''ale'', cz ''ani'', cz ''ano'', cz ''az^'', cz ''be'',
     cz ''bez'', cz ''bude'', cz ''budou'', cz ''byl'', cz ''byla'', cz ''byli'', cz ''byste'', cz ''bych'',
     cz ''bychom'', cz ''bys'', cz ''by'', cz ''co'', cz ''do'', cz ''kdo'', cz ''kde'', cz ''kdyz^'',
     cz ''ktere/'', cz ''ktera/'', cz ''ktere/'', cz ''ktery/'', cz ''je'', cz ''jeho'', cz ''jeji/'', cz ''jen'',
     cz ''jes^te^'', cz ''jestli'', cz ''jsem'', cz ''jsme'', cz ''jste'', cz ''jsou'', cz ''k'', cz ''ke'',
     cz ''komu'', cz ''kolik'', cz ''kolem'', cz ''ku'', cz ''kvu*li'', cz ''kde'', cz ''ktera/'', cz ''ktere/'',
     cz ''ktery/'', cz ''kdyz^'', cz ''na'', cz ''nad'', cz ''nebo'', cz ''nez^'', cz ''ni'', cz ''nic'',
     cz ''o'', cz ''od'', cz ''okolo'', cz ''pak'', cz ''po'', cz ''pod'', cz ''podle'', cz ''protoz^e'',
     cz ''proti'', cz ''pro'', cz ''se'', cz ''si'', cz ''s'', cz ''spolu'', cz ''stejne^'', cz ''svu*j'',
     cz ''sve/'', cz ''sve/ho'', cz ''svy/m'', cz ''sve/mi'', cz ''ta'', cz ''tak'', cz ''taky'', cz ''tam'',
     cz ''tady'', cz ''ten'', cz ''tento'', cz ''to'', cz ''tu'', cz ''tuto'', cz ''u'', cz ''uz^'',
     cz ''v'', cz ''ve'', cz ''va/m'', cz ''va/s'', cz ''vy'', cz ''va/s^'', cz ''vas^e'', cz ''z'',
     cz ''za'', cz ''ze'', cz ''z^e'']"

text \<open>
  \<open>re.findall\<close> of a character class repeated three or more times returns the maximal
  runs of characters of the class that are at least three long, from left to right.
  \<open>runs\<close> cuts the text into its maximal runs (\<open>cur\<close> is the run being read).
\<close>

fun runs :: "(cp \<Rightarrow> bool) \<Rightarrow> ustr \<Rightarrow> ustr \<Rightarrow> ustr list" where
  "runs P cur [] = [cur]"
| "runs P cur (c # cs) = (if P c then runs P (cur @ [c]) cs else cur # runs P [] cs)"

definition findall_words :: "pyrt \<Rightarrow> ustr \<Rightarrow> ustr list" where
  "findall_words U text = filter (\<lambda>w. 3 \<le> length w) (runs (kw_char U) [] text)"

text \<open>The loop of \<open>extract_keywords\<close>, with its variables \<open>seen\<close> and \<open>out\<close>.\<close>

fun keyword_loop :: "int \<Rightarrow> ustr list \<Rightarrow> ustr set \<Rightarrow> ustr list \<Rightarrow> ustr list" where
  "keyword_loop max_keywords [] seen out = out"
| "keyword_loop max_keywords (w # ws) seen out =
     (if w \<in> seen then keyword_loop max_keywords ws seen out
      else if int (length (out @ [w])) \<ge> max_keywords then out @ [w]
      else keyword_loop max_keywords ws (insert w seen) (out @ [w]))"

definition extract_keywords :: "pyrt \<Rightarrow> ustr \<Rightarrow> int \<Rightarrow> ustr list" where
  "extract_keywords U text max_keywords =
     (let text = str_lower U (normalize_text U text);
          words = findall_words U text;
          words = filter (\<lambda>w. w \<notin> CZ_STOPWORDS) words
      in keyword_loop max_keywords words {} [])"

section \<open>Category inference\<close>

definition trest_terms :: "ustr list" where
  "trest_terms =
    [cz ''policie'', cz ''trestni/'', cz ''trestny/'', cz ''trestni/ ozna/meni/'', cz ''obvine^n'',
     cz ''obz^aloba'', cz ''vy/pove^d^'', cz ''zadrz^eni/'', cz ''pr^edvola/ni/'', cz ''soud'',
     cz ''sta/tni/ za/stupce'', cz ''krimina/lka'', cz ''napadeni/'', cz ''ubli/z^eni/'', cz ''na/sili/'',
     cz ''vyhroz^uje'', cz ''vydi/ra/ni/'', cz ''kra/dez^'', cz ''loupez^'', cz ''podvod'',
     cz ''drogy'', cz ''alkohol'', cz ''r^i/zeni/ pod vlivem'', cz ''vraz^da'', cz ''zavraz^dil'',
     cz ''zabil'', cz ''smrt'', cz ''usmrceni/'']"

definition obc_terms :: "ustr list" where
  "obc_terms =
    [cz ''smlouva'', cz ''faktura'', cz ''nezaplatil'', cz ''neplati/'', cz ''dluh'',
     cz ''pu*jc^ka'', cz ''peni/ze'', cz ''z^aloba'', cz ''vy/zva k u/hrade^'', cz ''na/hrada s^kody'',
     cz ''s^koda'', cz ''reklamace'', cz ''vra/ceni/'', cz ''za/ruka'', cz ''spotr^ebitel'',
     cz ''prona/jem'', cz ''na/jem'', cz ''kauce'', cz ''soused'', cz ''plot'',
     cz ''hluk'', cz ''rozvod'', cz ''de^dictvi/'', cz ''opatrovnictvi/'', cz ''pe/c^e o di/te^'',
     cz ''zame^stnavatel'', cz ''vy/pove^d^ z pra/ce'', cz ''pracovni/ smlouva'']"

definition legal_terms :: "ustr list" where
  "legal_terms =
    [cz ''jaky/ je za/kon'', cz ''jaky/ za/kon plati/'', cz ''paragraf'', cz ''sbi/rka'', cz ''u/stav'',
     cz ''jak to r^i/ka/ za/kon'', cz ''co r^i/ka/ za/kon'', cz ''pra/vni/ pr^edpis'', cz ''vyhla/s^ka'',
     cz ''judikatura'', cz ''nejvys^s^i/ soud'', cz ''nss'', cz ''u/stavni/ soud'']"

text \<open>The three category names.\<close>

definition TRESTNI_PRAVO :: ustr where
  "TRESTNI_PRAVO = cz ''Trestni/ pra/vo''"

definition OBCANSKE_PRAVO :: ustr where
  "OBCANSKE_PRAVO = cz ''Obc^anske/ pra/vo''"

definition PRAVNI_RAD :: ustr where
  "PRAVNI_RAD = cz ''Pra/vni/ r^a/d C^R (obecne^)''"

text \<open>The inner function \<open>score_for\<close>: its loop, with the variable \<open>sc\<close>.\<close>

fun score_loop :: "ustr \<Rightarrow> ustr list \<Rightarrow> int \<Rightarrow> int" where
  "score_loop t [] sc = sc"
| "score_loop t (term # terms) sc = score_loop t terms (if contains term t then sc + 2 else sc)"

definition score_for :: "ustr \<Rightarrow> ustr list \<Rightarrow> int" where
  "score_for t terms = score_loop t terms 0"

text \<open>
  \<open>max(scores, key=lambda k: scores[k])\<close> walks the keys of the dictionary in the order
  they were inserted and keeps the first one whose value is the largest: a later key
  replaces the best one so far only when its value is strictly larger. The dictionary is
  the list of its items, in insertion order.
\<close>

fun max_key :: "(ustr \<times> int) \<Rightarrow> (ustr \<times> int) list \<Rightarrow> ustr \<times> int" where
  "max_key best [] = best"
| "max_key best (kv # kvs) = max_key (if snd kv > snd best then kv else best) kvs"

definition category_scores :: "pyrt \<Rightarrow> ustr \<Rightarrow> (ustr \<times> int) list" where
  "category_scores U user_text =
     (let t = str_lower U (normalize_text U user_text) in
      [(TRESTNI_PRAVO, score_for t trest_terms),
       (OBCANSKE_PRAVO, score_for t obc_terms),
       (PRAVNI_RAD, score_for t legal_terms)])"

text \<open>
  \<open>max\<close> raises on an empty dictionary; \<open>scores\<close> has its three keys, and the first
  case below is never taken.
\<close>

definition infer_category :: "pyrt \<Rightarrow> ustr \<Rightarrow> ustr" where
  "infer_category U user_text =
     (case category_scores U user_text of
        [] \<Rightarrow> PRAVNI_RAD
      | kv # kvs \<Rightarrow>
          (let best = max_key kv kvs in
           if snd best = 0 then PRAVNI_RAD else fst best))"

section \<open>Answers and the merge with the heuristic\<close>

record SourceItem =
  title :: ustr
  url :: ustr
  why_relevant :: ustr

record LawmateAnswer =
  traffic_light :: light
  risk_score :: int
  summary :: ustr
  what_to_do_now :: "ustr list"
  what_to_prepare :: "ustr list"
  relevant_laws :: "ustr list"
  important_deadlines :: "ustr list"
  when_to_contact_lawyer :: "ustr list"
  notes' :: "ustr list"
  sources :: "SourceItem list"

text \<open>The dictionary \<open>order\<close> of \<open>Worker.run\<close>.\<close>

fun order_of :: "light \<Rightarrow> nat" where
  "order_of Green = 0"
| "order_of Yellow = 1"
| "order_of Red = 2"

text \<open>
  Lines 78 to 84 of \<open>Worker.run\<close>: the heuristic score and light of the question, and the
  update of the model's answer.
\<close>

definition merge_heuristic :: "pyrt \<Rightarrow> ustr \<Rightarrow> ustr \<Rightarrow> LawmateAnswer \<Rightarrow> LawmateAnswer" where
  "merge_heuristic U question category ans =
     (let heur = heuristic_risk_score U question category;
          heur_light = traffic_light_from_score heur
      in if order_of heur_light > order_of (traffic_light ans)
         then ans\<lparr>traffic_light := heur_light, risk_score := max (risk_score ans) heur\<rparr>
         else ans)"

section \<open>Retrieval of recent decisions\<close>

text \<open>
  An exception is its type name and its message (\<open>type(e).__name__\<close>, \<open>str(e)\<close>). A
  computation that may raise returns \<open>exn + 'a\<close>.
\<close>

datatype exn = Exn (exn_name: ustr) (exn_str: ustr)

definition and_then :: "exn + 'a \<Rightarrow> ('a \<Rightarrow> exn + 'b) \<Rightarrow> exn + 'b" where
  "and_then m f = (case m of Inl e \<Rightarrow> Inl e | Inr x \<Rightarrow> f x)"

fun type_name :: "json \<Rightarrow> ustr" where
  "type_name JNull = cz ''NoneType''"
| "type_name (JBool b) = cz ''bool''"
| "type_name (JInt i) = cz ''int''"
| "type_name (JFloat r) = cz ''float''"
| "type_name (JStr s) = cz ''str''"
| "type_name (JArr xs) = cz ''list''"
| "type_name (JObj kvs) = cz ''dict''"

definition no_get :: "json \<Rightarrow> exn" where
  "no_get j = Exn (cz ''AttributeError'')
     ([0x27] @ type_name j @ [0x27] @ cz '' object has no attribute '' @ [0x27] @ cz ''get'' @ [0x27])"

definition not_iterable :: "json \<Rightarrow> exn" where
  "not_iterable j = Exn (cz ''TypeError'')
     ([0x27] @ type_name j @ [0x27] @ cz '' object is not iterable'')"

definition date_overflow :: exn where
  "date_overflow = Exn (cz ''OverflowError'') (cz ''date value out of range'')"

text \<open>
  \<open>JObj kvs\<close> is the dictionary that \<open>json\<close> builds by inserting the pairs \<open>kvs\<close> one
  after the other: a key read gives the value inserted last, and the keys are iterated in
  the order of their first insertion.
\<close>

definition dict_get :: "(ustr \<times> json) list \<Rightarrow> ustr \<Rightarrow> json \<Rightarrow> json" where
  "dict_get kvs k d = (case map_of (rev kvs) k of Some v \<Rightarrow> v | None \<Rightarrow> d)"

fun dict_keys :: "(ustr \<times> json) list \<Rightarrow> ustr list" where
  "dict_keys [] = []"
| "dict_keys ((k, v) # kvs) = k # filter (\<lambda>k'. k' \<noteq> k) (dict_keys kvs)"

text \<open>\<open>x.get(k, d)\<close>: only a dictionary has the method.\<close>

fun get :: "json \<Rightarrow> ustr \<Rightarrow> json \<Rightarrow> exn + json" where
  "get (JObj kvs) k d = Inr (dict_get kvs k d)"
| "get j k d = Inl (no_get j)"

fun truthy :: "json \<Rightarrow> bool" where
  "truthy JNull = False"
| "truthy (JBool b) = b"
| "truthy (JInt i) = (i \<noteq> 0)"
| "truthy (JFloat r) = (r \<noteq> 0)"
| "truthy (JStr s) = (s \<noteq> [])"
| "truthy (JArr xs) = (xs \<noteq> [])"
| "truthy (JObj kvs) = (kvs \<noteq> [])"

text \<open>\<open>x or []\<close>.\<close>

definition or_empty :: "json \<Rightarrow> json" where
  "or_empty x = (if truthy x then x else JArr [])"

definition py_str :: "pyrt \<Rightarrow> json \<Rightarrow> ustr" where
  "py_str U j = (case j of JStr s \<Rightarrow> s | _ \<Rightarrow> py_repr U j)"

text \<open>
  \<open>[str(x) for x in v]\<close>: a list gives its elements, a string its characters, a
  dictionary its keys; nothing else can be iterated.
\<close>

fun py_iter :: "json \<Rightarrow> exn + json list" where
  "py_iter (JArr xs) = Inr xs"
| "py_iter (JStr s) = Inr (map (\<lambda>c. JStr [c]) s)"
| "py_iter (JObj kvs) = Inr (map JStr (dict_keys kvs))"
| "py_iter j = Inl (not_iterable j)"

definition str_list :: "pyrt \<Rightarrow> json \<Rightarrow> exn + ustr list" where
  "str_list U v = and_then (py_iter v) (\<lambda>xs. Inr (map (py_str U) xs))"

text \<open>\<open>sep.join(xs)\<close> and the slice \<open>xs[:n]\<close>; a negative \<open>n\<close> counts from the end.\<close>

fun join :: "ustr \<Rightarrow> ustr list \<Rightarrow> ustr" where
  "join sep [] = []"
| "join sep [x] = x"
| "join sep (x # y # ys) = x @ sep @ join sep (y # ys)"

definition slice_to :: "int \<Rightarrow> 'a list \<Rightarrow> 'a list" where
  "slice_to n xs = (if 0 \<le> n then take (nat n) xs else take (length xs - nat (- n)) xs)"

text \<open>
  The relevance score is the quotient of two small naturals, the second the same for all
  candidates of a call; it is kept as the exact rational, which orders the candidates
  as the floating-point quotients do.
\<close>

record JusticeDecision =
  jednaci_cislo :: ustr
  soud :: ustr
  predmet_rizeni :: ustr
  datum_vydani :: ustr
  datum_zverejneni :: ustr
  klicova_slova :: "ustr list"
  zminena_ustanoveni :: "ustr list"
  odkaz :: ustr
  score :: rat

text \<open>The body of the loop over the items of a day, for one item.\<close>

definition item_blob :: "pyrt \<Rightarrow> (ustr \<times> json) list \<Rightarrow> exn + ustr" where
  "item_blob U it =
     (let predmet = normalize_text U (py_str U (dict_get it (cz ''predmetRizeni'') (JStr [])));
          klic = or_empty (dict_get it (cz ''klicovaSlova'') (JArr []));
          ust = or_empty (dict_get it (cz ''zminenaUstanoveni'') (JArr []))
      in and_then (str_list U klic) (\<lambda>ks.
         and_then (str_list U ust) (\<lambda>us.
         Inr (str_lower U (join [0x20] ([predmet] @ ks @ us))))))"

definition overlap_of :: "ustr list \<Rightarrow> ustr \<Rightarrow> nat" where
  "overlap_of keywords blob = length (filter (\<lambda>kw. contains kw blob) keywords)"

definition make_decision :: "pyrt \<Rightarrow> (ustr \<times> json) list \<Rightarrow> ustr list \<Rightarrow> ustr list \<Rightarrow> rat \<Rightarrow> JusticeDecision" where
  "make_decision U it ks us sc =
     \<lparr> jednaci_cislo = py_str U (dict_get it (cz ''jednaciCislo'') (JStr [])),
       soud = py_str U (dict_get it (cz ''soud'') (JStr [])),
       predmet_rizeni = normalize_text U (py_str U (dict_get it (cz ''predmetRizeni'') (JStr []))),
       datum_vydani = py_str U (dict_get it (cz ''datumVydani'') (JStr [])),
       datum_zverejneni = py_str U (dict_get it (cz ''datumZverejneni'') (JStr [])),
       klicova_slova = slice_to 10 ks,
       zminena_ustanoveni = slice_to 10 us,
       odkaz = py_str U (dict_get it (cz ''odkaz'') (JStr [])),
       score = sc \<rparr>"

fun score_item :: "pyrt \<Rightarrow> ustr list \<Rightarrow> json \<Rightarrow> exn + JusticeDecision option" where
  "score_item U keywords (JObj it) =
     and_then (item_blob U it) (\<lambda>blob.
       let overlap = overlap_of keywords blob in
       if overlap = 0 then Inr None
       else
         and_then (str_list U (or_empty (dict_get it (cz ''klicovaSlova'') (JArr [])))) (\<lambda>ks.
         and_then (str_list U (or_empty (dict_get it (cz ''zminenaUstanoveni'') (JArr [])))) (\<lambda>us.
         Inr (Some (make_decision U it ks us
                (rat_of_nat overlap / rat_of_nat (max (length keywords) 1)))))))"
| "score_item U keywords j = Inl (no_get j)"

fun scan_items :: "pyrt \<Rightarrow> ustr list \<Rightarrow> json list \<Rightarrow> JusticeDecision list \<Rightarrow> exn + JusticeDecision list" where
  "scan_items U keywords [] candidates = Inr candidates"
| "scan_items U keywords (it # items) candidates =
     (case score_item U keywords it of
        Inl e \<Rightarrow> Inl e
      | Inr None \<Rightarrow> scan_items U keywords items candidates
      | Inr (Some d) \<Rightarrow> scan_items U keywords items (candidates @ [d]))"

text \<open>
  What follows the \<open>try\<close> in the loop over the days, for the payload \<open>data\<close> of one day.
\<close>

definition scan_day :: "pyrt \<Rightarrow> ustr list \<Rightarrow> int \<Rightarrow> json \<Rightarrow> JusticeDecision list \<Rightarrow> exn + JusticeDecision list" where
  "scan_day U keywords max_items_per_day data candidates =
     and_then (get data (cz ''items'') (JArr [])) (\<lambda>items.
       case items of
         JArr xs \<Rightarrow> scan_items U keywords (slice_to max_items_per_day xs) candidates
       | _ \<Rightarrow> Inr candidates)"

text \<open>
  The remote index answers a request for the decisions of a date with a decoded JSON
  value, or the request raises. A date is its day number (\<open>date.toordinal\<close>, at least 1);
  \<open>today - timedelta(days=i)\<close> raises \<open>OverflowError\<close> below day 1. The loop over
  \<open>range(lookback_days)\<close> carries the candidates and the list of the dates requested so
  far.
\<close>

type_synonym remote = "nat \<Rightarrow> exn + json"

fun scan_days :: "pyrt \<Rightarrow> remote \<Rightarrow> nat \<Rightarrow> ustr list \<Rightarrow> int \<Rightarrow> nat list
    \<Rightarrow> JusticeDecision list \<Rightarrow> nat list \<Rightarrow> (exn + JusticeDecision list) \<times> nat list" where
  "scan_days U fetch_day today keywords max_items_per_day [] candidates requests =
     (Inr candidates, requests)"
| "scan_days U fetch_day today keywords max_items_per_day (i # days) candidates requests =
     (if today \<le> i then (Inl date_overflow, requests)
      else
        (let d = today - i in
         case fetch_day d of
           Inl e \<Rightarrow> scan_days U fetch_day today keywords max_items_per_day days candidates (requests @ [d])
         | Inr data \<Rightarrow>
             (case scan_day U keywords max_items_per_day data candidates of
                Inl e \<Rightarrow> (Inl e, requests @ [d])
              | Inr candidates' \<Rightarrow>
                  scan_days U fetch_day today keywords max_items_per_day days candidates' (requests @ [d]))))"

text \<open>
  \<open>candidates.sort(key=lambda x: x.score, reverse=True)\<close> is a stable sort into descending
  order of the score: \<open>sort_key\<close> is stable, on the negated score.
\<close>

definition sort_by_score :: "JusticeDecision list \<Rightarrow> JusticeDecision list" where
  "sort_by_score candidates = sort_key (\<lambda>x. - score x) candidates"

definition search_recent_decisions ::
    "pyrt \<Rightarrow> remote \<Rightarrow> nat \<Rightarrow> ustr \<Rightarrow> int \<Rightarrow> int \<Rightarrow> (exn + JusticeDecision list) \<times> nat list" where
  "search_recent_decisions U fetch_day today question lookback_days max_items_per_day =
     (let keywords = extract_keywords U question 12 in
      if keywords = [] \<or> lookback_days \<le> 0 then (Inr [], [])
      else
        (case scan_days U fetch_day today keywords max_items_per_day [0..<nat lookback_days] [] [] of
           (Inl e, requests) \<Rightarrow> (Inl e, requests)
         | (Inr candidates, requests) \<Rightarrow> (Inr (slice_to 5 (sort_by_score candidates)), requests)))"

definition decisions_to_sources :: "JusticeDecision list \<Rightarrow> SourceItem list" where
  "decisions_to_sources decisions =
     map (\<lambda>d. \<lparr> title = soud d @ [0x20, 0x2013, 0x20] @ jednaci_cislo d @ cz '' ('' @ datum_vydani d @ cz '')'',
                url = odkaz d,
                why_relevant = cz ''Pr^edme^t r^i/zeni/: '' @ predmet_rizeni d @ cz ''. Kli/c^ova/ slova: ''
                  @ join (cz '', '') (slice_to 5 (klicova_slova d)) @ cz ''.'' \<rparr>)
         decisions"

section \<open>A submission\<close>

text \<open>
  The collaborators of \<open>Worker.run\<close> outside the retrieval: \<open>generate\<close> is the answer, or
  the exception, of \<open>make_provider(cfg).generate(SYSTEM_BASE, make_user_prompt(category,
  question, sources_block))\<close>, where \<open>sources_block\<close> is written from the sources;
  \<open>json_dumps\<close> writes the sources of the answer.
\<close>

record services =
  fetch_day :: remote
  today :: nat
  generate :: "ustr \<Rightarrow> ustr \<Rightarrow> SourceItem list \<Rightarrow> exn + LawmateAnswer"
  json_dumps :: "SourceItem list \<Rightarrow> ustr"

record AppConfig =
  justice_lookback_days :: int
  justice_max_items_per_day :: int

text \<open>What the signal \<open>done\<close> carries: an answer or an exception, a light, the sources.\<close>

datatype outcome = Answer LawmateAnswer | Failure exn

definition Worker_run :: "pyrt \<Rightarrow> services \<Rightarrow> AppConfig \<Rightarrow> ustr \<Rightarrow> ustr \<Rightarrow> outcome \<times> light \<times> ustr" where
  "Worker_run U S cfg category question =
     (case fst (search_recent_decisions U (fetch_day S) (today S) question
                  (justice_lookback_days cfg) (justice_max_items_per_day cfg)) of
        Inl e \<Rightarrow> (Failure e, Red, cz ''[]'')
      | Inr decisions \<Rightarrow>
          (case generate S category question (decisions_to_sources decisions) of
             Inl e \<Rightarrow> (Failure e, Red, cz ''[]'')
           | Inr ans \<Rightarrow>
               (let ans = merge_heuristic U question category ans
                in (Answer ans, traffic_light ans, json_dumps S (sources ans)))))"

text \<open>
  The store: the rows of the two tables, and the next row number of \<open>messages\<close>. A
  message without a session breaks the \<open>NOT NULL\<close> constraint of the column.
\<close>

record session =
  s_id :: int
  s_title :: ustr
  s_category :: ustr
  s_created_at :: ustr
  s_updated_at :: ustr

record message =
  m_id :: int
  m_session_id :: int
  m_role :: ustr
  m_content :: ustr
  m_traffic_light :: "light option"
  m_sources_json :: "ustr option"
  m_created_at :: ustr

record Database =
  sessions :: "session list"
  messages :: "message list"
  next_message_id :: int

definition integrity_error :: exn where
  "integrity_error = Exn (cz ''IntegrityError'') (cz ''NOT NULL constraint failed: messages.session_id'')"

text \<open>
  \<open>add_message\<close>; \<open>now\<close> holds the two readings of the clock, for the message and for
  the session.
\<close>

definition add_message ::
    "Database \<Rightarrow> int option \<Rightarrow> ustr \<Rightarrow> ustr \<Rightarrow> light option \<Rightarrow> ustr option \<Rightarrow> ustr \<times> ustr
     \<Rightarrow> exn + Database \<times> int" where
  "add_message db session_id role content' light sources_json now =
     (case session_id of
        None \<Rightarrow> Inl integrity_error
      | Some sid \<Rightarrow>
          Inr (db\<lparr> messages := messages db @
                     [\<lparr> m_id = next_message_id db, m_session_id = sid, m_role = role,
                        m_content = content', m_traffic_light = light,
                        m_sources_json = sources_json, m_created_at = fst now \<rparr>],
                   sessions := map (\<lambda>s. if s_id s = sid then s\<lparr>s_updated_at := snd now\<rparr> else s)
                                   (sessions db),
                   next_message_id := next_message_id db + 1 \<rparr>,
               next_message_id db))"

text \<open>
  The window: the store and the session that is open. \<open>on_done\<close> takes the rendering of
  an answer to HTML (\<open>format_answer\<close>) as a parameter.
\<close>

record MainWindow =
  db :: Database
  current_session_id :: "int option"

definition error_html :: "exn \<Rightarrow> ustr" where
  "error_html e = cz ''Nastala chyba: <b>'' @ exn_name e @ cz ''</b><br>'' @ exn_str e
     @ cz ''<br><br>Tip: zkontroluj `.env` a provider.''"

definition on_done ::
    "(LawmateAnswer \<Rightarrow> ustr) \<Rightarrow> MainWindow \<Rightarrow> outcome \<times> light \<times> ustr \<Rightarrow> ustr \<times> ustr \<Rightarrow> exn + MainWindow" where
  "on_done format_answer W signal now =
     (case signal of (result, light, sources_json) \<Rightarrow>
        and_then
          (case result of
             Failure e \<Rightarrow>
               add_message (db W) (current_session_id W) (cz ''assistant'') (error_html e)
                 (Some Red) (Some (cz ''[]'')) now
           | Answer ans \<Rightarrow>
               add_message (db W) (current_session_id W) (cz ''assistant'') (format_answer ans)
                 (Some light) (Some sources_json) now)
          (\<lambda>(db', row). Inr (W\<lparr>db := db'\<rparr>)))"

section \<open>Tables for evaluation\<close>

text \<open>
  One instance of the tables, to run the model on concrete texts. It agrees with Python
  on the code points below U+0080 and on the Czech letters, which is all the examples
  below contain; no example takes \<open>str\<close> of a JSON value that is not a string.
\<close>

definition lower_cp :: "cp \<Rightarrow> cp" where
  "lower_cp c =
     (if 0x41 \<le> c \<and> c \<le> 0x5A then c + 32
      else if 0xC0 \<le> c \<and> c \<le> 0xDE \<and> c \<noteq> 0xD7 then c + 32
      else if c \<in> {0x10C, 0x10E, 0x11A, 0x147, 0x158, 0x160, 0x164, 0x16E, 0x17D} then c + 1
      else c)"

definition czech_space :: "cp \<Rightarrow> bool" where
  "czech_space c = ((0x09 \<le> c \<and> c \<le> 0x0D) \<or> (0x1C \<le> c \<and> c \<le> 0x20) \<or> c = 0x85 \<or> c = 0xA0)"

definition czech_digit :: "cp \<Rightarrow> bool" where
  "czech_digit c = (0x30 \<le> c \<and> c \<le> 0x39)"

definition czech_word :: "cp \<Rightarrow> bool" where
  "czech_word c =
     ((0x30 \<le> c \<and> c \<le> 0x39) \<or> (0x41 \<le> c \<and> c \<le> 0x5A) \<or> c = 0x5F \<or> (0x61 \<le> c \<and> c \<le> 0x7A)
      \<or> (0xC0 \<le> c \<and> c \<le> 0x17F \<and> c \<noteq> 0xD7 \<and> c \<noteq> 0xF7))"

definition czech_kw :: "cp \<Rightarrow> bool" where
  "czech_kw c =
     (let l = lower_cp c in
      (0x61 \<le> l \<and> l \<le> 0x7A) \<or> (0x30 \<le> l \<and> l \<le> 0x39) \<or> (0xE1 \<le> l \<and> l \<le> 0x17E))"

definition czech :: pyrt where
  "czech = \<lparr> lower_table = map lower_cp, isspace = czech_space, re_digit = czech_digit,
             re_word = czech_word, kw_char = czech_kw, py_repr = (\<lambda>j. cz ''?'') \<rparr>"

section \<open>Notions used in the statements\<close>

text \<open>
  The category denotes the criminal domain (the test of \<open>heuristic_risk_score\<close>); the
  numbers of red terms and of yellow terms that the lower-cased text contains; the number
  of distinct terms of the two lists together that it contains.
\<close>

definition criminal :: "pyrt \<Rightarrow> ustr \<Rightarrow> bool" where
  "criminal U category = startswith (str_lower U category) (cz ''trest'')"

definition matched_red :: "pyrt \<Rightarrow> ustr \<Rightarrow> nat" where
  "matched_red U text = length (filter (\<lambda>term. contains term (str_lower U text)) red_terms)"

definition matched_yellow :: "pyrt \<Rightarrow> ustr \<Rightarrow> nat" where
  "matched_yellow U text = length (filter (\<lambda>term. contains term (str_lower U text)) yellow_terms)"

definition matched_terms :: "pyrt \<Rightarrow> ustr \<Rightarrow> nat" where
  "matched_terms U text =
     length (filter (\<lambda>term. contains term (str_lower U text)) (remdups (red_terms @ yellow_terms)))"

text \<open>The order green, yellow, red of the lights: \<open>severer a b\<close> when \<open>a\<close> is above \<open>b\<close>.\<close>

fun severer :: "light \<Rightarrow> light \<Rightarrow> bool" where
  "severer Yellow Green = True"
| "severer Red Green = True"
| "severer Red Yellow = True"
| "severer a b = False"

text \<open>An answer of the model with a given light and score, and nothing else.\<close>

definition model_answer :: "light \<Rightarrow> int \<Rightarrow> LawmateAnswer" where
  "model_answer l s = \<lparr> traffic_light = l, risk_score = s, summary = [], what_to_do_now = [],
     what_to_prepare = [], relevant_laws = [], important_deadlines = [],
     when_to_contact_lawyer = [], notes' = [], sources = [] \<rparr>"

text \<open>The score of a domain of \<open>infer_category\<close> on a text, for the term list of the domain.\<close>

definition domain_score :: "pyrt \<Rightarrow> ustr \<Rightarrow> ustr list \<Rightarrow> int" where
  "domain_score U user_text terms = score_for (str_lower U (normalize_text U user_text)) terms"



definition day_items :: "int \<Rightarrow> json \<Rightarrow> json list" where
  "day_items max_items_per_day data =
     (case data of
        JObj kvs \<Rightarrow>
          (case dict_get kvs (cz ''items'') (JArr []) of
             JArr xs \<Rightarrow> slice_to max_items_per_day xs
           | _ \<Rightarrow> [])
      | _ \<Rightarrow> [])"


text \<open>
  The candidates an item, a day and the whole window give when nothing raises, in the
  order of the scan.
\<close>

fun collect :: "('a \<Rightarrow> 'b option) \<Rightarrow> 'a list \<Rightarrow> 'b list" where
  "collect f [] = []"
| "collect f (x # xs) = (case f x of None \<Rightarrow> collect f xs | Some y \<Rightarrow> y # collect f xs)"

definition item_candidate :: "pyrt \<Rightarrow> ustr list \<Rightarrow> json \<Rightarrow> JusticeDecision option" where
  "item_candidate U keywords it =
     (case score_item U keywords it of Inr (Some d) \<Rightarrow> Some d | _ \<Rightarrow> None)"

definition day_candidates ::
    "pyrt \<Rightarrow> remote \<Rightarrow> nat \<Rightarrow> ustr list \<Rightarrow> int \<Rightarrow> nat \<Rightarrow> JusticeDecision list" where
  "day_candidates U fetch day0 keywords max_items_per_day i =
     (case fetch (day0 - i) of
        Inl e \<Rightarrow> []
      | Inr data \<Rightarrow> collect (item_candidate U keywords) (day_items max_items_per_day data))"

definition all_candidates ::
    "pyrt \<Rightarrow> remote \<Rightarrow> nat \<Rightarrow> ustr list \<Rightarrow> int \<Rightarrow> int \<Rightarrow> JusticeDecision list" where
  "all_candidates U fetch day0 keywords max_items_per_day lookback_days =
     concat (map (day_candidates U fetch day0 keywords max_items_per_day) [0..<nat lookback_days])"

text \<open>
  A remote index for the examples. Today is day 100: its request fails. Day 99 has a
  divorce case and a debt case, day 98 a case on a debt from a contract, the payload of
  day 97 has a number for its items, every other day has an empty dictionary.
\<close>

definition fields_divorce :: "(ustr \<times> json) list" where
  "fields_divorce = [(cz ''predmetRizeni'', JStr (cz ''rozvod  manz^elstvi/'')),
                     (cz ''klicovaSlova'', JNull), (cz ''soud'', JStr (cz ''OS Praha''))]"

definition fields_debt :: "(ustr \<times> json) list" where
  "fields_debt = [(cz ''predmetRizeni'', JStr (cz ''Zaplaceni/ c^a/stky'')),
                  (cz ''klicovaSlova'', JArr [JStr (cz ''Dluh'')]), (cz ''soud'', JStr (cz ''OS Brno''))]"

definition fields_contract :: "(ustr \<times> json) list" where
  "fields_contract = [(cz ''predmetRizeni'', JStr (cz ''dluh ze smlouvy'')),
                      (cz ''zminenaUstanoveni'', JArr [JStr (cz ''smlouva o di/lo'')]),
                      (cz ''soud'', JStr (cz ''KS Plzen^''))]"

definition payload_99 :: json where
  "payload_99 = JObj [(cz ''items'', JArr [JObj fields_divorce, JObj fields_debt])]"

definition payload_98 :: json where
  "payload_98 = JObj [(cz ''items'', JArr [JObj fields_contract])]"

definition payload_97 :: json where
  "payload_97 = JObj [(cz ''items'', JInt 3)]"

definition sample_remote :: remote where
  "sample_remote d =
     (if d = 100 then Inl (Exn (cz ''ConnectionError'') (cz ''timed out''))
      else if d = 99 then Inr payload_99
      else if d = 98 then Inr payload_98
      else if d = 97 then Inr payload_97
      else Inr (JObj []))"

definition sample_question :: ustr where
  "sample_question = cz ''Ma/m dluh a smlouva''"

definition sample_keywords :: "ustr list" where
  "sample_keywords = [cz ''ma/m'', cz ''dluh'', cz ''smlouva'']"

text \<open>The two decisions that the question finds there.\<close>

definition decision_contract :: JusticeDecision where
  "decision_contract =
     \<lparr> jednaci_cislo = [], soud = cz ''KS Plzen^'', predmet_rizeni = cz ''dluh ze smlouvy'',
       datum_vydani = [], datum_zverejneni = [], klicova_slova = [],
       zminena_ustanoveni = [cz ''smlouva o di/lo''], odkaz = [], score = 2 / 3 \<rparr>"

definition decision_debt :: JusticeDecision where
  "decision_debt =
     \<lparr> jednaci_cislo = [], soud = cz ''OS Brno'', predmet_rizeni = cz ''Zaplaceni/ c^a/stky'',
       datum_vydani = [], datum_zverejneni = [], klicova_slova = [cz ''Dluh''],
       zminena_ustanoveni = [], odkaz = [], score = 1 / 3 \<rparr>"






text \<open>
  For the submission: a configuration error of the provider, collaborators whose
  generation raises it, collaborators whose remote index answers with a list where a
  dictionary is expected, and a window with one open session and no message.
\<close>

definition missing_key :: exn where
  "missing_key = Exn (cz ''LLMError'') (cz ''OPENAI_API_KEY chybi/ v .env'')"

definition no_provider :: services where
  "no_provider = \<lparr> fetch_day = sample_remote, today = 100,
                    generate = (\<lambda>category question srcs. Inl missing_key),
                    json_dumps = (\<lambda>srcs. cz ''[]'') \<rparr>"

definition broken_index :: services where
  "broken_index = \<lparr> fetch_day = (\<lambda>d. Inr (JArr [])), today = 100,
                     generate = (\<lambda>category question srcs. Inr (model_answer Yellow 45)),
                     json_dumps = (\<lambda>srcs. cz ''[]'') \<rparr>"

definition sample_window :: MainWindow where
  "sample_window =
     \<lparr> db = \<lparr> sessions = [\<lparr> s_id = 1, s_title = cz ''Chat'', s_category = OBCANSKE_PRAVO,
                             s_created_at = cz ''2026-01-01T10:00:00'',
                             s_updated_at = cz ''2026-01-01T10:00:00'' \<rparr>],
              messages = [], next_message_id = 1 \<rparr>,
       current_session_id = Some 1 \<rparr>"

text \<open>The two readings of the clock of a message, and a rendering of answers.\<close>

definition sample_now :: "ustr \<times> ustr" where
  "sample_now = (cz ''2026-01-01T10:05:00'', cz ''2026-01-01T10:05:01'')"

definition plain_summary :: "LawmateAnswer \<Rightarrow> ustr" where
  "plain_summary ans = summary ans"

section \<open>Properties\<close>

subsection \<open>The traffic light of a score\<close>

text \<open>
  C6. For every integer score, \<open>traffic_light_from_score\<close> returns red exactly when the
  score is at least 70, yellow exactly when it is at least 35 and below 70, and green
  exactly when it is below 35; it maps 0 and 34 to green, 35 and 69 to yellow, 70 and 100
  to red.
\<close>

theorem traffic_light_from_score_thresholds:
  "(traffic_light_from_score s = Red) = (s \<ge> 70) \<and>
   (traffic_light_from_score s = Yellow) = (35 \<le> s \<and> s < 70) \<and>
   (traffic_light_from_score s = Green) = (s < 35) \<and>
   traffic_light_from_score 0 = Green \<and> traffic_light_from_score 34 = Green \<and>
   traffic_light_from_score 35 = Yellow \<and> traffic_light_from_score 69 = Yellow \<and>
   traffic_light_from_score 70 = Red \<and> traffic_light_from_score 100 = Red"
  by (simp add: traffic_light_from_score_def)

subsection \<open>Substrings\<close>

text \<open>\<open>startswith\<close> and \<open>contains\<close> are the prefix and the substring relations.\<close>

lemma startswith_iff: "startswith t p = (\<exists>b. t = p @ b)"
  by (induction t p rule: startswith.induct) auto

lemma contains_iff: "contains p t = (\<exists>a b. t = a @ p @ b)"
proof (induction t)
  case Nil
  show ?case by auto
next
  case (Cons c cs)
  have "(\<exists>a b. c # cs = a @ p @ b) = ((\<exists>b. c # cs = p @ b) \<or> (\<exists>a b. cs = a @ p @ b))"
  proof
    assume "\<exists>a b. c # cs = a @ p @ b"
    then obtain a b where ab: "c # cs = a @ p @ b" by blast
    show "(\<exists>b. c # cs = p @ b) \<or> (\<exists>a b. cs = a @ p @ b)"
    proof (cases a)
      case Nil
      with ab show ?thesis by auto
    next
      case (Cons x a')
      with ab have "cs = a' @ p @ b" by simp
      then show ?thesis by blast
    qed
  next
    assume "(\<exists>b. c # cs = p @ b) \<or> (\<exists>a b. cs = a @ p @ b)"
    then show "\<exists>a b. c # cs = a @ p @ b"
    proof
      assume "\<exists>b. c # cs = p @ b"
      then obtain b where "c # cs = [] @ p @ b" by auto
      then show ?thesis by blast
    next
      assume "\<exists>a b. cs = a @ p @ b"
      then obtain a b where "c # cs = (c # a) @ p @ b" by auto
      then show ?thesis by blast
    qed
  qed
  with Cons show ?case by (simp add: startswith_iff)
qed

subsection \<open>Evaluation\<close>

text \<open>The definitions to unfold when a term is evaluated under the tables \<open>czech\<close>.\<close>

lemmas czech_defs = czech_def str_lower_def lower_cp_def czech_digit_def czech_word_def
  czech_space_def czech_kw_def

lemmas money_defs = money_def money_lengths_def word_boundary_def

subsection \<open>The heuristic score\<close>

lemma add_terms_count:
  "add_terms w t terms s = s + w * int (length (filter (\<lambda>term. contains term t) terms))"
  by (induction terms arbitrary: s) (simp_all add: algebra_simps)

lemma heuristic_risk_score_sum:
  "heuristic_risk_score U x c =
     min (10 + 30 * int (matched_red U x) + 15 * int (matched_yellow U x)
          + (if money U (str_lower U x) then 15 else 0) + (if urgent (str_lower U x) then 15 else 0)
          + (if criminal U c then 10 else 0)) 100"
  by (simp add: heuristic_risk_score_def Let_def add_terms_count matched_red_def
      matched_yellow_def criminal_def)

text \<open>The parts of the score on a few texts, under the tables \<open>czech\<close>.\<close>

lemma red_police_court: "matched_red czech (cz ''policie soud'') = 2"
  by (simp add: matched_red_def red_terms_def czech_defs)

lemma yellow_police_court: "matched_yellow czech (cz ''policie soud'') = 0"
  by (simp add: matched_yellow_def yellow_terms_def czech_defs)

lemma money_police_court: "money czech (str_lower czech (cz ''policie soud'')) = False"
  by (simp add: money_defs czech_defs)

lemma urgent_police_court: "urgent (str_lower czech (cz ''policie soud'')) = False"
  by (simp add: urgent_def czech_defs)

lemma red_police: "matched_red czech (cz ''policie'') = 1"
  by (simp add: matched_red_def red_terms_def czech_defs)

lemma yellow_police: "matched_yellow czech (cz ''policie'') = 0"
  by (simp add: matched_yellow_def yellow_terms_def czech_defs)

lemma money_police: "money czech (str_lower czech (cz ''policie'')) = False"
  by (simp add: money_defs czech_defs)

lemma urgent_police: "urgent (str_lower czech (cz ''policie'')) = False"
  by (simp add: urgent_def czech_defs)

lemma red_contracts: "matched_red czech (cz ''smlouva reklamace pokuta'') = 0"
  by (simp add: matched_red_def red_terms_def czech_defs)

lemma yellow_contracts: "matched_yellow czech (cz ''smlouva reklamace pokuta'') = 3"
  by (simp add: matched_yellow_def yellow_terms_def czech_defs)

lemma money_contracts: "money czech (str_lower czech (cz ''smlouva reklamace pokuta'')) = False"
  by (simp add: money_defs czech_defs)

lemma urgent_contracts: "urgent (str_lower czech (cz ''smlouva reklamace pokuta'')) = False"
  by (simp add: urgent_def czech_defs)

lemma red_greeting: "matched_red czech (cz ''dobry/ den'') = 0"
  by (simp add: matched_red_def red_terms_def czech_defs)

lemma yellow_greeting: "matched_yellow czech (cz ''dobry/ den'') = 0"
  by (simp add: matched_yellow_def yellow_terms_def czech_defs)

lemma money_greeting: "money czech (str_lower czech (cz ''dobry/ den'')) = False"
  by (simp add: money_defs czech_defs)

lemma urgent_greeting: "urgent (str_lower czech (cz ''dobry/ den'')) = False"
  by (simp add: urgent_def czech_defs)

lemma red_notice: "matched_red czech (cz ''Dostal jsem vy/pove^d^'') = 1"
  by (simp add: matched_red_def red_terms_def czech_defs)

lemma yellow_notice: "matched_yellow czech (cz ''Dostal jsem vy/pove^d^'') = 1"
  by (simp add: matched_yellow_def yellow_terms_def czech_defs)

lemma money_notice: "money czech (str_lower czech (cz ''Dostal jsem vy/pove^d^'')) = False"
  by (simp add: money_defs czech_defs)

lemma urgent_notice: "urgent (str_lower czech (cz ''Dostal jsem vy/pove^d^'')) = False"
  by (simp add: urgent_def czech_defs)

lemma criminal_trestni: "criminal czech TRESTNI_PRAVO = True"
  by (simp add: criminal_def TRESTNI_PRAVO_def czech_defs)

lemma criminal_obcanske: "criminal czech OBCANSKE_PRAVO = False"
  by (simp add: criminal_def OBCANSKE_PRAVO_def czech_defs)

lemma criminal_empty: "criminal czech [] = False"
  by (simp add: criminal_def czech_defs)

lemma score_police_court_criminal:
  "heuristic_risk_score czech (cz ''policie soud'') TRESTNI_PRAVO = 80"
  unfolding heuristic_risk_score_sum red_police_court yellow_police_court money_police_court
    urgent_police_court criminal_trestni by simp

lemma score_police_court: "heuristic_risk_score czech (cz ''policie soud'') [] = 70"
  unfolding heuristic_risk_score_sum red_police_court yellow_police_court money_police_court
    urgent_police_court criminal_empty by simp

lemma score_police: "heuristic_risk_score czech (cz ''policie'') [] = 40"
  unfolding heuristic_risk_score_sum red_police yellow_police money_police urgent_police
    criminal_empty by simp

lemma score_contracts: "heuristic_risk_score czech (cz ''smlouva reklamace pokuta'') [] = 55"
  unfolding heuristic_risk_score_sum red_contracts yellow_contracts money_contracts
    urgent_contracts criminal_empty by simp

subsection \<open>The merge of the model's answer with the heuristic\<close>

lemma order_of_severer: "(order_of a > order_of b) = severer a b"
  by (cases a; cases b) simp_all

text \<open>
  C1. If the heuristic light, \<open>traffic_light_from_score (heuristic_risk_score text
  category)\<close>, is strictly more severe than the light of the model's answer, the merged answer
  has the heuristic light and the larger of the two scores; otherwise the model's answer
  is kept as it is.
\<close>

theorem merge_heuristic_policy:
  "(severer (traffic_light_from_score (heuristic_risk_score U question category)) (traffic_light ans) \<longrightarrow>
      merge_heuristic U question category ans =
        ans\<lparr>traffic_light := traffic_light_from_score (heuristic_risk_score U question category),
            risk_score := max (risk_score ans) (heuristic_risk_score U question category)\<rparr>) \<and>
   (\<not> severer (traffic_light_from_score (heuristic_risk_score U question category)) (traffic_light ans) \<longrightarrow>
      merge_heuristic U question category ans = ans)"
  by (simp add: merge_heuristic_def Let_def order_of_severer)

text \<open>
  The two examples of the specification: the model says green with 20 and the heuristic
  red with 80; the model says red with 90 and the heuristic yellow with 40.
\<close>

theorem merge_heuristic_policy_witness:
  "merge_heuristic czech (cz ''policie soud'') TRESTNI_PRAVO (model_answer Green 20) = model_answer Red 80 \<and>
   merge_heuristic czech (cz ''policie'') [] (model_answer Red 90) = model_answer Red 90"
proof -
  have a: "severer (traffic_light_from_score (heuristic_risk_score czech (cz ''policie soud'') TRESTNI_PRAVO))
             (traffic_light (model_answer Green 20))"
    unfolding score_police_court_criminal by (simp add: traffic_light_from_score_def model_answer_def)
  have b: "\<not> severer (traffic_light_from_score (heuristic_risk_score czech (cz ''policie'') []))
             (traffic_light (model_answer Red 90))"
    unfolding score_police by (simp add: traffic_light_from_score_def model_answer_def)
  have "merge_heuristic czech (cz ''policie soud'') TRESTNI_PRAVO (model_answer Green 20) =
      (model_answer Green 20)\<lparr>traffic_light :=
          traffic_light_from_score (heuristic_risk_score czech (cz ''policie soud'') TRESTNI_PRAVO),
        risk_score := max (risk_score (model_answer Green 20))
          (heuristic_risk_score czech (cz ''policie soud'') TRESTNI_PRAVO)\<rparr>"
    using a merge_heuristic_policy [of czech "cz ''policie soud''" TRESTNI_PRAVO "model_answer Green 20"]
    by blast
  then have "merge_heuristic czech (cz ''policie soud'') TRESTNI_PRAVO (model_answer Green 20) = model_answer Red 80"
    unfolding score_police_court_criminal by (simp add: traffic_light_from_score_def model_answer_def)
  moreover have "merge_heuristic czech (cz ''policie'') [] (model_answer Red 90) = model_answer Red 90"
    using b merge_heuristic_policy [of czech "cz ''policie''" "[]" "model_answer Red 90"] by blast
  ultimately show ?thesis by blast
qed

subsection \<open>Monotonicity and bounds of the heuristic score\<close>

lemma distinct_terms_police_court: "matched_terms czech (cz ''policie soud'') = 2"
  by (simp add: matched_terms_def red_terms_def yellow_terms_def czech_defs)

lemma distinct_terms_contracts: "matched_terms czech (cz ''smlouva reklamace pokuta'') = 3"
  by (simp add: matched_terms_def red_terms_def yellow_terms_def czech_defs)

text \<open>
  C7, as stated, fails. With one count for the terms of both lists, the score is not
  monotone in it: two red terms give 70, three yellow terms give 55 (no amount, no urgency,
  no category in either text).
\<close>

theorem heuristic_not_monotone_in_term_count:
  "matched_terms czech (cz ''policie soud'') < matched_terms czech (cz ''smlouva reklamace pokuta'') \<and>
   heuristic_risk_score czech (cz ''smlouva reklamace pokuta'') []
     < heuristic_risk_score czech (cz ''policie soud'') []"
  unfolding distinct_terms_police_court distinct_terms_contracts score_police_court score_contracts
  by simp

text \<open>
  C7, amended. The score does not decrease when the number of red terms present and the
  number of yellow terms present do not decrease (each count on its own) and the three
  other additions are not lost. It never exceeds 100. For a text with no red term, no yellow
  term, no amount, no urgency phrase and a category that is not criminal it is exactly 10.
\<close>

theorem heuristic_risk_score_monotone:
  "(matched_red U a \<le> matched_red U b \<and> matched_yellow U a \<le> matched_yellow U b \<and>
    (money U (str_lower U a) \<longrightarrow> money U (str_lower U b)) \<and>
    (urgent (str_lower U a) \<longrightarrow> urgent (str_lower U b)) \<and>
    (criminal U ca \<longrightarrow> criminal U cb)
    \<longrightarrow> heuristic_risk_score U a ca \<le> heuristic_risk_score U b cb) \<and>
   heuristic_risk_score U a ca \<le> 100 \<and>
   ((\<forall>term \<in> set red_terms. \<not> contains term (str_lower U a)) \<and>
    (\<forall>term \<in> set yellow_terms. \<not> contains term (str_lower U a)) \<and>
    \<not> money U (str_lower U a) \<and> \<not> urgent (str_lower U a) \<and> \<not> criminal U ca
    \<longrightarrow> heuristic_risk_score U a ca = 10)"
proof (intro conjI impI)
  assume h: "matched_red U a \<le> matched_red U b \<and> matched_yellow U a \<le> matched_yellow U b \<and>
    (money U (str_lower U a) \<longrightarrow> money U (str_lower U b)) \<and>
    (urgent (str_lower U a) \<longrightarrow> urgent (str_lower U b)) \<and>
    (criminal U ca \<longrightarrow> criminal U cb)"
  then show "heuristic_risk_score U a ca \<le> heuristic_risk_score U b cb"
    unfolding heuristic_risk_score_sum by (auto simp: min_def)
next
  show "heuristic_risk_score U a ca \<le> 100"
    unfolding heuristic_risk_score_sum by simp
next
  assume h: "(\<forall>term \<in> set red_terms. \<not> contains term (str_lower U a)) \<and>
    (\<forall>term \<in> set yellow_terms. \<not> contains term (str_lower U a)) \<and>
    \<not> money U (str_lower U a) \<and> \<not> urgent (str_lower U a) \<and> \<not> criminal U ca"
  then have "matched_red U a = 0" "matched_yellow U a = 0"
    by (simp_all add: matched_red_def matched_yellow_def)
  with h show "heuristic_risk_score U a ca = 10"
    unfolding heuristic_risk_score_sum by simp
qed

lemma no_match_iff: "(length (filter P xs) = 0) = (\<forall>x \<in> set xs. \<not> P x)"
  by (simp add: filter_empty_conv)

theorem heuristic_risk_score_monotone_witness:
  "heuristic_risk_score czech (cz ''dobry/ den'') [] \<le> heuristic_risk_score czech (cz ''policie'') [] \<and>
   heuristic_risk_score czech (cz ''dobry/ den'') [] \<le> 100 \<and>
   heuristic_risk_score czech (cz ''dobry/ den'') [] = 10"
proof -
  have r: "matched_red czech (cz ''dobry/ den'') \<le> matched_red czech (cz ''policie'')"
    unfolding red_greeting red_police by simp
  have y: "matched_yellow czech (cz ''dobry/ den'') \<le> matched_yellow czech (cz ''policie'')"
    unfolding yellow_greeting yellow_police by simp
  have m: "\<not> money czech (str_lower czech (cz ''dobry/ den''))"
    unfolding money_greeting by simp
  have u: "\<not> urgent (str_lower czech (cz ''dobry/ den''))"
    unfolding urgent_greeting by simp
  have c: "\<not> criminal czech []"
    unfolding criminal_empty by simp
  have nr: "\<forall>term \<in> set red_terms. \<not> contains term (str_lower czech (cz ''dobry/ den''))"
    using red_greeting unfolding matched_red_def no_match_iff .
  have ny: "\<forall>term \<in> set yellow_terms. \<not> contains term (str_lower czech (cz ''dobry/ den''))"
    using yellow_greeting unfolding matched_yellow_def no_match_iff .
  show ?thesis
    using heuristic_risk_score_monotone [of czech "cz ''dobry/ den''" "cz ''policie''" "[]" "[]"]
      r y m u c nr ny
    by blast
qed

subsection \<open>A term of both lists\<close>

lemma only_vypoved:
  assumes "contains (cz ''vy/pove^d^'') t"
    and "\<forall>term \<in> set terms. term \<noteq> cz ''vy/pove^d^'' \<longrightarrow> \<not> contains term t"
  shows "filter (\<lambda>term. contains term t) terms = filter (\<lambda>term. term = cz ''vy/pove^d^'') terms"
  using assms by (intro filter_cong) auto

lemma red_vypoved: "length (filter (\<lambda>term. term = cz ''vy/pove^d^'') red_terms) = 1"
  by (simp add: red_terms_def)

lemma yellow_vypoved: "length (filter (\<lambda>term. term = cz ''vy/pove^d^'') yellow_terms) = 1"
  by (simp add: yellow_terms_def)

text \<open>
  C10. The term "vypoved" (with its accents) is in the red list and in the yellow list, and
  a text that contains it adds both 30 and 15: when the lower-cased text contains it and no
  other red or yellow term, no amount and no urgency phrase, and the category is not
  criminal, the score is 10 + 30 + 15 = 55.
\<close>

theorem vypoved_counts_twice:
  "cz ''vy/pove^d^'' \<in> set red_terms \<and> cz ''vy/pove^d^'' \<in> set yellow_terms \<and>
   (contains (cz ''vy/pove^d^'') (str_lower U text) \<and>
    (\<forall>term \<in> set red_terms \<union> set yellow_terms.
       term \<noteq> cz ''vy/pove^d^'' \<longrightarrow> \<not> contains term (str_lower U text)) \<and>
    \<not> money U (str_lower U text) \<and> \<not> urgent (str_lower U text) \<and> \<not> criminal U category
    \<longrightarrow> heuristic_risk_score U text category = 55)"
proof (intro conjI impI)
  show "cz ''vy/pove^d^'' \<in> set red_terms" by (simp add: red_terms_def)
  show "cz ''vy/pove^d^'' \<in> set yellow_terms" by (simp add: yellow_terms_def)
next
  assume h: "contains (cz ''vy/pove^d^'') (str_lower U text) \<and>
    (\<forall>term \<in> set red_terms \<union> set yellow_terms.
       term \<noteq> cz ''vy/pove^d^'' \<longrightarrow> \<not> contains term (str_lower U text)) \<and>
    \<not> money U (str_lower U text) \<and> \<not> urgent (str_lower U text) \<and> \<not> criminal U category"
  have "filter (\<lambda>term. contains term (str_lower U text)) red_terms
      = filter (\<lambda>term. term = cz ''vy/pove^d^'') red_terms"
    using h by (intro only_vypoved) blast+
  then have r: "matched_red U text = 1"
    unfolding matched_red_def using red_vypoved by metis
  have "filter (\<lambda>term. contains term (str_lower U text)) yellow_terms
      = filter (\<lambda>term. term = cz ''vy/pove^d^'') yellow_terms"
    using h by (intro only_vypoved) blast+
  then have y: "matched_yellow U text = 1"
    unfolding matched_yellow_def using yellow_vypoved by metis
  from h r y show "heuristic_risk_score U text category = 55"
    unfolding heuristic_risk_score_sum by simp
qed

lemma contains_notice:
  "contains (cz ''vy/pove^d^'') (str_lower czech (cz ''Dostal jsem vy/pove^d^''))"
  by (simp add: czech_defs)

lemma others_notice:
  "\<forall>term \<in> set red_terms \<union> set yellow_terms.
     term \<noteq> cz ''vy/pove^d^'' \<longrightarrow> \<not> contains term (str_lower czech (cz ''Dostal jsem vy/pove^d^''))"
  by (simp add: red_terms_def yellow_terms_def czech_defs)

theorem vypoved_counts_twice_witness:
  "heuristic_risk_score czech (cz ''Dostal jsem vy/pove^d^'') OBCANSKE_PRAVO = 55"
proof -
  have m: "\<not> money czech (str_lower czech (cz ''Dostal jsem vy/pove^d^''))"
    unfolding money_notice by simp
  have u: "\<not> urgent (str_lower czech (cz ''Dostal jsem vy/pove^d^''))"
    unfolding urgent_notice by simp
  have c: "\<not> criminal czech OBCANSKE_PRAVO"
    unfolding criminal_obcanske by simp
  show ?thesis
    using vypoved_counts_twice [of czech "cz ''Dostal jsem vy/pove^d^''" OBCANSKE_PRAVO]
      contains_notice others_notice m u c
    by blast
qed

subsection \<open>Keyword extraction\<close>

lemma keyword_loop_props:
  "seen = set out \<Longrightarrow> distinct out \<Longrightarrow>
   distinct (keyword_loop m ws seen out) \<and>
   set (keyword_loop m ws seen out) \<subseteq> set out \<union> set ws \<and>
   int (length (keyword_loop m ws seen out)) \<le> max m (int (length out) + 1)"
proof (induction ws arbitrary: seen out)
  case Nil
  then show ?case by simp
next
  case (Cons w ws)
  show ?case
  proof (cases "w \<in> seen")
    case True
    with Cons.IH [OF Cons.prems] show ?thesis by auto
  next
    case False
    show ?thesis
    proof (cases "int (length (out @ [w])) \<ge> m")
      case True
      with False Cons.prems show ?thesis by auto
    next
      case c: False
      have "insert w seen = set (out @ [w])" "distinct (out @ [w])"
        using False Cons.prems by auto
      from Cons.IH [OF this] False c show ?thesis by auto
    qed
  qed
qed

lemma extract_keywords_props:
  "distinct (extract_keywords U text m) \<and>
   (\<forall>w \<in> set (extract_keywords U text m). w \<notin> CZ_STOPWORDS) \<and>
   int (length (extract_keywords U text m)) \<le> max m 1 \<and>
   extract_keywords U [] m = []"
proof -
  define ws where "ws = filter (\<lambda>w. w \<notin> CZ_STOPWORDS)
    (findall_words U (str_lower U (normalize_text U text)))"
  have e: "extract_keywords U text m = keyword_loop m ws {} []"
    by (simp add: extract_keywords_def ws_def Let_def)
  have "distinct (keyword_loop m ws {} []) \<and> set (keyword_loop m ws {} []) \<subseteq> set [] \<union> set ws \<and>
      int (length (keyword_loop m ws {} [])) \<le> max m (int (length ([] :: ustr list)) + 1)"
    by (rule keyword_loop_props) simp_all
  moreover have "\<forall>w \<in> set ws. w \<notin> CZ_STOPWORDS"
    by (simp add: ws_def)
  moreover have "extract_keywords U [] m = []"
    by (simp add: extract_keywords_def normalize_text_def strip_def str_lower_def findall_words_def)
  ultimately show ?thesis
    unfolding e by auto
qed

lemma keywords_neighbour:
  "extract_keywords czech (cz ''Ma/m dluh dluh u sousedy'') 12 = [cz ''ma/m'', cz ''dluh'', cz ''sousedy'']"
  by (simp add: extract_keywords_def findall_words_def normalize_text_def strip_def
      CZ_STOPWORDS_def czech_defs Let_def)

text \<open>
  C2, as stated, fails: it bounds the length by \<open>max_keywords\<close> for every value of
  \<open>max_keywords\<close>. No list is shorter than a negative cap; and with the cap 0 the loop, which
  appends a keyword before it compares the length with the cap, returns one keyword.
\<close>

theorem extract_keywords_cap_not_positive:
  "extract_keywords czech [] (- 1) = [] \<and>
   \<not> int (length (extract_keywords czech [] (- 1))) \<le> - 1 \<and>
   extract_keywords czech (cz ''dluh soused'') 0 = [cz ''dluh''] \<and>
   \<not> int (length (extract_keywords czech (cz ''dluh soused'') 0)) \<le> 0"
  by (simp add: extract_keywords_def findall_words_def normalize_text_def strip_def
      CZ_STOPWORDS_def czech_defs Let_def)

text \<open>
  C2, amended. For every text and every cap the result of \<open>extract_keywords\<close> has no
  keyword twice and no stopword; for every cap of at least 1 it is not longer than the
  cap; for the empty text it is empty.
\<close>

theorem extract_keywords_invariant:
  "distinct (extract_keywords U text max_keywords) \<and>
   (\<forall>w \<in> set (extract_keywords U text max_keywords). w \<notin> CZ_STOPWORDS) \<and>
   (1 \<le> max_keywords \<longrightarrow> int (length (extract_keywords U text max_keywords)) \<le> max_keywords) \<and>
   extract_keywords U [] max_keywords = []"
  using extract_keywords_props [of U "text" max_keywords] by auto

text \<open>
  The example of the specification: the debt is kept once, the stopword and the short
  words are dropped.
\<close>

theorem extract_keywords_invariant_witness:
  "extract_keywords czech (cz ''Ma/m dluh dluh u sousedy'') 12 = [cz ''ma/m'', cz ''dluh'', cz ''sousedy''] \<and>
   distinct [cz ''ma/m'', cz ''dluh'', cz ''sousedy''] \<and>
   cz ''ma/m'' \<notin> CZ_STOPWORDS \<and> cz ''dluh'' \<notin> CZ_STOPWORDS \<and> cz ''sousedy'' \<notin> CZ_STOPWORDS \<and>
   int (length [cz ''ma/m'', cz ''dluh'', cz ''sousedy'']) \<le> 12"
proof -
  have c: "(1 :: int) \<le> 12" by simp
  from extract_keywords_invariant [of czech "cz ''Ma/m dluh dluh u sousedy''" 12] c
  have "distinct (extract_keywords czech (cz ''Ma/m dluh dluh u sousedy'') 12) \<and>
    (\<forall>w \<in> set (extract_keywords czech (cz ''Ma/m dluh dluh u sousedy'') 12). w \<notin> CZ_STOPWORDS) \<and>
    int (length (extract_keywords czech (cz ''Ma/m dluh dluh u sousedy'') 12)) \<le> 12"
    by blast
  then have "distinct [cz ''ma/m'', cz ''dluh'', cz ''sousedy''] \<and>
    (\<forall>w \<in> set [cz ''ma/m'', cz ''dluh'', cz ''sousedy'']. w \<notin> CZ_STOPWORDS) \<and>
    int (length [cz ''ma/m'', cz ''dluh'', cz ''sousedy'']) \<le> 12"
    unfolding keywords_neighbour .
  then have "distinct [cz ''ma/m'', cz ''dluh'', cz ''sousedy''] \<and>
    cz ''ma/m'' \<notin> CZ_STOPWORDS \<and> cz ''dluh'' \<notin> CZ_STOPWORDS \<and> cz ''sousedy'' \<notin> CZ_STOPWORDS \<and>
    int (length [cz ''ma/m'', cz ''dluh'', cz ''sousedy'']) \<le> 12"
    unfolding list.set by blast
  with keywords_neighbour show ?thesis by blast
qed

subsection \<open>Category inference\<close>

lemma score_loop_count:
  "score_loop t terms sc = sc + 2 * int (length (filter (\<lambda>term. contains term t) terms))"
  by (induction terms arbitrary: sc) simp_all

text \<open>
  C8. Each domain scores 2 for each of its terms that the normalized, lower-cased text
  contains. \<open>infer_category\<close> returns the first domain, in the order criminal, civil,
  general, whose score is the highest: the criminal one when no score is above its own,
  the civil one when it is above the criminal one and the general one is not above it,
  the general one when it is above both. When the three scores are 0 it returns the general
  category.
\<close>

theorem infer_category_first_maximum:
  "domain_score U text terms
     = 2 * int (length (filter (\<lambda>term. contains term (str_lower U (normalize_text U text))) terms)) \<and>
   (domain_score U text trest_terms = 0 \<and> domain_score U text obc_terms = 0 \<and>
    domain_score U text legal_terms = 0 \<longrightarrow> infer_category U text = PRAVNI_RAD) \<and>
   (0 < domain_score U text trest_terms \<and>
    domain_score U text obc_terms \<le> domain_score U text trest_terms \<and>
    domain_score U text legal_terms \<le> domain_score U text trest_terms
      \<longrightarrow> infer_category U text = TRESTNI_PRAVO) \<and>
   (domain_score U text trest_terms < domain_score U text obc_terms \<and>
    domain_score U text legal_terms \<le> domain_score U text obc_terms
      \<longrightarrow> infer_category U text = OBCANSKE_PRAVO) \<and>
   (domain_score U text trest_terms < domain_score U text legal_terms \<and>
    domain_score U text obc_terms < domain_score U text legal_terms
      \<longrightarrow> infer_category U text = PRAVNI_RAD)"
  by (auto simp: domain_score_def score_for_def score_loop_count infer_category_def
      category_scores_def Let_def)

lemmas category_defs = domain_score_def score_for_def normalize_text_def strip_def czech_defs

lemma trest_report: "domain_score czech (cz ''Podal jsem trestni/ ozna/meni/'') trest_terms = 4"
  by (simp add: category_defs trest_terms_def)

lemma obc_report: "domain_score czech (cz ''Podal jsem trestni/ ozna/meni/'') obc_terms = 0"
  by (simp add: category_defs obc_terms_def)

lemma legal_report: "domain_score czech (cz ''Podal jsem trestni/ ozna/meni/'') legal_terms = 0"
  by (simp add: category_defs legal_terms_def)

lemma trest_tie: "domain_score czech (cz ''smlouva a policie'') trest_terms = 2"
  by (simp add: category_defs trest_terms_def)

lemma obc_tie: "domain_score czech (cz ''smlouva a policie'') obc_terms = 2"
  by (simp add: category_defs obc_terms_def)

lemma legal_tie: "domain_score czech (cz ''smlouva a policie'') legal_terms = 0"
  by (simp add: category_defs legal_terms_def)

lemma trest_greeting: "domain_score czech (cz ''dobry/ den'') trest_terms = 0"
  by (simp add: category_defs trest_terms_def)

lemma obc_greeting: "domain_score czech (cz ''dobry/ den'') obc_terms = 0"
  by (simp add: category_defs obc_terms_def)

lemma legal_greeting: "domain_score czech (cz ''dobry/ den'') legal_terms = 0"
  by (simp add: category_defs legal_terms_def)

lemma trest_rent: "domain_score czech (cz ''na/jem a paragraf'') trest_terms = 0"
  by (simp add: category_defs trest_terms_def)

lemma obc_rent: "domain_score czech (cz ''na/jem a paragraf'') obc_terms = 2"
  by (simp add: category_defs obc_terms_def)

lemma legal_rent: "domain_score czech (cz ''na/jem a paragraf'') legal_terms = 2"
  by (simp add: category_defs legal_terms_def)

lemma trest_statute: "domain_score czech (cz ''paragraf a vyhla/s^ka o na/jmu'') trest_terms = 0"
  by (simp add: category_defs trest_terms_def)

lemma obc_statute: "domain_score czech (cz ''paragraf a vyhla/s^ka o na/jmu'') obc_terms = 0"
  by (simp add: category_defs obc_terms_def)

lemma legal_statute: "domain_score czech (cz ''paragraf a vyhla/s^ka o na/jmu'') legal_terms = 4"
  by (simp add: category_defs legal_terms_def)

text \<open>
  A report to the police is criminal; a tie between the criminal and the civil domain
  goes to the criminal one, a tie between the civil and the general domain to the civil
  one; a text of statutes is general; a greeting, with three scores 0, is general.
\<close>

theorem infer_category_first_maximum_witness:
  "infer_category czech (cz ''Podal jsem trestni/ ozna/meni/'') = TRESTNI_PRAVO \<and>
   infer_category czech (cz ''smlouva a policie'') = TRESTNI_PRAVO \<and>
   infer_category czech (cz ''na/jem a paragraf'') = OBCANSKE_PRAVO \<and>
   infer_category czech (cz ''paragraf a vyhla/s^ka o na/jmu'') = PRAVNI_RAD \<and>
   infer_category czech (cz ''dobry/ den'') = PRAVNI_RAD"
proof -
  have a: "infer_category czech (cz ''Podal jsem trestni/ ozna/meni/'') = TRESTNI_PRAVO"
    using infer_category_first_maximum [of czech "cz ''Podal jsem trestni/ ozna/meni/''"]
    unfolding trest_report obc_report legal_report by simp
  have b: "infer_category czech (cz ''smlouva a policie'') = TRESTNI_PRAVO"
    using infer_category_first_maximum [of czech "cz ''smlouva a policie''"]
    unfolding trest_tie obc_tie legal_tie by simp
  have c: "infer_category czech (cz ''na/jem a paragraf'') = OBCANSKE_PRAVO"
    using infer_category_first_maximum [of czech "cz ''na/jem a paragraf''"]
    unfolding trest_rent obc_rent legal_rent by simp
  have d: "infer_category czech (cz ''paragraf a vyhla/s^ka o na/jmu'') = PRAVNI_RAD"
    using infer_category_first_maximum [of czech "cz ''paragraf a vyhla/s^ka o na/jmu''"]
    unfolding trest_statute obc_statute legal_statute by simp
  have e: "infer_category czech (cz ''dobry/ den'') = PRAVNI_RAD"
    using infer_category_first_maximum [of czech "cz ''dobry/ den''"]
    unfolding trest_greeting obc_greeting legal_greeting by simp
  from a b c d e show ?thesis by blast
qed

subsection \<open>The scan of the days\<close>

lemma slice_to_5: "slice_to 5 xs = take 5 xs"
  by (simp add: slice_to_def)

lemma scan_items_append:
  "scan_items U kws its cands =
     (case scan_items U kws its [] of Inl e \<Rightarrow> Inl e | Inr new \<Rightarrow> Inr (cands @ new))"
proof (induction its arbitrary: cands)
  case Nil
  show ?case by simp
next
  case (Cons it its)
  show ?case
  proof (cases "score_item U kws it")
    case (Inl e)
    then show ?thesis by simp
  next
    case (Inr r)
    show ?thesis
    proof (cases r)
      case None
      with Inr Cons.IH [of cands] show ?thesis by simp
    next
      case (Some d)
      with Inr Cons.IH [of "cands @ [d]"] Cons.IH [of "[d]"] show ?thesis
        by (simp split: sum.splits)
    qed
  qed
qed

lemma scan_items_candidates:
  "scan_items U kws its [] = Inr new \<Longrightarrow> new = collect (item_candidate U kws) its"
proof (induction its arbitrary: new)
  case Nil
  then show ?case by simp
next
  case (Cons it its)
  from Cons.prems obtain r where r: "score_item U kws it = Inr r"
    by (cases "score_item U kws it") auto
  show ?case
  proof (cases r)
    case None
    with r Cons show ?thesis by (simp add: item_candidate_def)
  next
    case (Some d)
    with r Cons.prems have "scan_items U kws its [d] = Inr new" by simp
    then obtain new' where n: "scan_items U kws its [] = Inr new'" "new = [d] @ new'"
      using scan_items_append [of U kws its "[d]"] by (auto split: sum.splits)
    with Cons.IH [OF n(1)] r Some show ?thesis
      by (simp add: item_candidate_def)
  qed
qed

lemma scan_day_append:
  "scan_day U kws mx data cands =
     (case scan_day U kws mx data [] of Inl e \<Rightarrow> Inl e | Inr new \<Rightarrow> Inr (cands @ new))"
proof (cases data)
  case (JObj kvs)
  show ?thesis
  proof (cases "dict_get kvs (cz ''items'') (JArr [])")
    case (JArr xs)
    with JObj scan_items_append [of U kws "slice_to mx xs" cands] show ?thesis
      by (simp add: scan_day_def and_then_def)
  qed (simp_all add: JObj scan_day_def and_then_def)
qed (simp_all add: scan_day_def and_then_def)

lemma scan_day_candidates:
  "scan_day U kws mx data [] = Inr new \<Longrightarrow>
   new = collect (item_candidate U kws) (day_items mx data)"
proof (cases data)
  case (JObj kvs)
  assume a: "scan_day U kws mx data [] = Inr new"
  show ?thesis
  proof (cases "dict_get kvs (cz ''items'') (JArr [])")
    case (JArr xs)
    with JObj a scan_items_candidates [of U kws "slice_to mx xs" new] show ?thesis
      by (simp add: scan_day_def and_then_def day_items_def)
  qed (use a JObj in \<open>simp_all add: scan_day_def and_then_def day_items_def\<close>)
qed (simp_all add: scan_day_def and_then_def)




lemma scan_days_candidates:
  "fst (scan_days U fetch day0 kws mx days cands reqs) = Inr cs \<Longrightarrow>
   cs = cands @ concat (map (day_candidates U fetch day0 kws mx) days)"
proof (induction days arbitrary: cands reqs)
  case Nil
  then show ?case by simp
next
  case (Cons i days)
  from Cons.prems have lt: "\<not> day0 \<le> i"
    by (auto split: if_splits)
  show ?case
  proof (cases "fetch (day0 - i)")
    case (Inl e)
    with lt Cons.prems have "fst (scan_days U fetch day0 kws mx days cands (reqs @ [day0 - i])) = Inr cs"
      by simp
    from Cons.IH [OF this] Inl show ?thesis
      by (simp add: day_candidates_def)
  next
    case (Inr data)
    with lt Cons.prems obtain c' where c': "scan_day U kws mx data cands = Inr c'"
      by (cases "scan_day U kws mx data cands") auto
    then obtain new where new: "scan_day U kws mx data [] = Inr new" "c' = cands @ new"
      using scan_day_append [of U kws mx data cands] by (auto split: sum.splits)
    from lt Inr c' Cons.prems
    have "fst (scan_days U fetch day0 kws mx days c' (reqs @ [day0 - i])) = Inr cs"
      by simp
    from Cons.IH [OF this] new scan_day_candidates [OF new(1)] Inr show ?thesis
      by (simp add: day_candidates_def)
  qed
qed


lemma item_blob_str_lists:
  "item_blob U it = Inr blob \<Longrightarrow>
   \<exists>ks us. str_list U (or_empty (dict_get it (cz ''klicovaSlova'') (JArr []))) = Inr ks \<and>
           str_list U (or_empty (dict_get it (cz ''zminenaUstanoveni'') (JArr []))) = Inr us"
  by (auto simp: item_blob_def Let_def and_then_def split: sum.splits)

lemma score_item_overlap:
  "item_blob U it = Inr blob \<Longrightarrow>
   (overlap_of kws blob = 0 \<longrightarrow> score_item U kws (JObj it) = Inr None) \<and>
   (0 < overlap_of kws blob \<longrightarrow>
      (\<exists>d. score_item U kws (JObj it) = Inr (Some d) \<and>
           score d = rat_of_nat (overlap_of kws blob) / rat_of_nat (max (length kws) 1)))"
proof -
  assume b: "item_blob U it = Inr blob"
  from item_blob_str_lists [OF b] obtain ks us where
    "str_list U (or_empty (dict_get it (cz ''klicovaSlova'') (JArr []))) = Inr ks"
    "str_list U (or_empty (dict_get it (cz ''zminenaUstanoveni'') (JArr []))) = Inr us"
    by blast
  with b show ?thesis
    by (simp add: and_then_def Let_def make_decision_def)
qed

lemma score_item_Some:
  "score_item U kws it = Inr (Some d) \<Longrightarrow>
   \<exists>kvs blob. it = JObj kvs \<and> item_blob U kvs = Inr blob \<and> 0 < overlap_of kws blob \<and>
     score d = rat_of_nat (overlap_of kws blob) / rat_of_nat (max (length kws) 1)"
proof (cases it)
  case (JObj kvs)
  assume a: "score_item U kws it = Inr (Some d)"
  with JObj obtain blob where b: "item_blob U kvs = Inr blob"
    by (cases "item_blob U kvs") (auto simp: and_then_def)
  with a JObj have pos: "0 < overlap_of kws blob"
    by (auto simp: and_then_def Let_def split: if_splits)
  with score_item_overlap [OF b, of kws] a JObj b show ?thesis by auto
qed (simp_all)

lemma overlap_le: "overlap_of kws blob \<le> length kws"
  by (simp add: overlap_of_def)

lemma relevance_in_unit:
  "0 < n \<Longrightarrow> n \<le> m \<Longrightarrow> 0 < rat_of_nat n / rat_of_nat (max m 1) \<and> rat_of_nat n / rat_of_nat (max m 1) \<le> 1"
  by (simp add: max_def)

lemma item_candidate_score:
  "item_candidate U kws it = Some d \<Longrightarrow> 0 < score d \<and> score d \<le> 1"
proof -
  assume "item_candidate U kws it = Some d"
  then have "score_item U kws it = Inr (Some d)"
    by (auto simp: item_candidate_def split: sum.splits option.splits)
  from score_item_Some [OF this] obtain kvs blob where
    p: "0 < overlap_of kws blob"
    and s: "score d = rat_of_nat (overlap_of kws blob) / rat_of_nat (max (length kws) 1)"
    by blast
  from relevance_in_unit [OF p overlap_le] s show ?thesis by simp
qed

lemma set_collect: "(y \<in> set (collect f xs)) = (\<exists>x \<in> set xs. f x = Some y)"
  by (induction xs) (auto split: option.splits)

lemma all_candidates_score:
  "d \<in> set (all_candidates U fetch day0 kws mx lb) \<Longrightarrow> 0 < score d \<and> score d \<le> 1"
  by (auto simp: all_candidates_def day_candidates_def set_collect
      dest: item_candidate_score split: sum.splits)

lemma no_keywords_no_candidates: "all_candidates U fetch day0 [] mx lb = []"
proof -
  have "item_candidate U [] it = None" for it
  proof (cases "item_candidate U [] it")
    case (Some d)
    then have "score_item U [] it = Inr (Some d)"
      by (auto simp: item_candidate_def split: sum.splits option.splits)
    from score_item_Some [OF this] show ?thesis by (simp add: overlap_of_def)
  qed simp
  then have "collect (item_candidate U []) xs = []" for xs
    by (induction xs) simp_all
  then show ?thesis
    by (simp add: all_candidates_def day_candidates_def split: sum.splits)
qed

subsection \<open>The example index\<close>

lemma keywords_sample: "extract_keywords czech sample_question 12 = sample_keywords"
  by (simp add: sample_question_def sample_keywords_def extract_keywords_def findall_words_def
      normalize_text_def strip_def CZ_STOPWORDS_def czech_defs Let_def)

lemmas item_defs = item_blob_def str_list_def and_then_def or_empty_def dict_get_def py_str_def
  normalize_text_def strip_def czech_defs Let_def

lemma blob_divorce: "item_blob czech fields_divorce = Inr (cz ''rozvod manz^elstvi/'')"
  by (simp add: fields_divorce_def item_defs)

lemma blob_debt: "item_blob czech fields_debt = Inr (cz ''zaplaceni/ c^a/stky dluh'')"
  by (simp add: fields_debt_def item_defs)

lemma blob_contract: "item_blob czech fields_contract = Inr (cz ''dluh ze smlouvy smlouva o di/lo'')"
  by (simp add: fields_contract_def item_defs)

lemma overlap_divorce: "overlap_of sample_keywords (cz ''rozvod manz^elstvi/'') = 0"
  by (simp add: overlap_of_def sample_keywords_def)

lemma overlap_debt: "overlap_of sample_keywords (cz ''zaplaceni/ c^a/stky dluh'') = 1"
  by (simp add: overlap_of_def sample_keywords_def)

lemma overlap_contract: "overlap_of sample_keywords (cz ''dluh ze smlouvy smlouva o di/lo'') = 2"
  by (simp add: overlap_of_def sample_keywords_def)

lemmas decision_defs = make_decision_def str_list_def and_then_def or_empty_def dict_get_def
  py_str_def normalize_text_def strip_def slice_to_def czech_defs sample_keywords_def

lemma score_divorce: "score_item czech sample_keywords (JObj fields_divorce) = Inr None"
  unfolding score_item.simps blob_divorce and_then_def sum.case Let_def overlap_divorce by simp

lemma score_debt: "score_item czech sample_keywords (JObj fields_debt) = Inr (Some decision_debt)"
  unfolding score_item.simps blob_debt and_then_def sum.case Let_def overlap_debt
  by (simp add: fields_debt_def decision_debt_def decision_defs)

lemma score_contract:
  "score_item czech sample_keywords (JObj fields_contract) = Inr (Some decision_contract)"
  unfolding score_item.simps blob_contract and_then_def sum.case Let_def overlap_contract
  by (simp add: fields_contract_def decision_contract_def decision_defs)

lemma day_99: "scan_day czech sample_keywords 200 payload_99 cands = Inr (cands @ [decision_debt])"
  unfolding payload_99_def scan_day_def get.simps and_then_def sum.case
  by (simp add: dict_get_def slice_to_def score_divorce score_debt del: score_item.simps)

lemma day_98: "scan_day czech sample_keywords 200 payload_98 cands = Inr (cands @ [decision_contract])"
  unfolding payload_98_def scan_day_def get.simps and_then_def sum.case
  by (simp add: dict_get_def slice_to_def score_contract del: score_item.simps)

lemma day_97: "scan_day czech sample_keywords 200 payload_97 cands = Inr cands"
  unfolding payload_97_def scan_day_def get.simps and_then_def sum.case
  by (simp add: dict_get_def)

lemma days_sample: "[0..<nat 4] = [0, 1, 2, 3]"
  by (simp add: upt_rec)

lemma scan_sample:
  "scan_days czech sample_remote 100 sample_keywords 200 [0, 1, 2, 3] [] []
   = (Inr [decision_debt, decision_contract], [100, 99, 98, 97])"
  by (simp add: sample_remote_def day_99 day_98 day_97)

lemma sort_sample:
  "sort_by_score [decision_debt, decision_contract] = [decision_contract, decision_debt]"
  by (simp add: sort_by_score_def decision_debt_def decision_contract_def)

lemma sample_keywords_not_empty: "sample_keywords \<noteq> []"
  by (simp add: sample_keywords_def)

lemma search_sample:
  "search_recent_decisions czech sample_remote 100 sample_question 4 200
   = (Inr [decision_contract, decision_debt], [100, 99, 98, 97])"
  unfolding search_recent_decisions_def keywords_sample days_sample Let_def scan_sample
  by (simp add: sort_sample slice_to_def sample_keywords_not_empty)

subsection \<open>No request without keywords or without a window\<close>

text \<open>
  C5. If the question has no keyword, or \<open>lookback_days\<close> is 0 or less,
  \<open>search_recent_decisions\<close> returns the empty list and has requested no date from the
  remote index.
\<close>

theorem search_no_remote_call:
  "extract_keywords U question 12 = [] \<or> lookback_days \<le> 0 \<Longrightarrow>
   search_recent_decisions U fetch day0 question lookback_days max_items = (Inr [], [])"
  by (auto simp: search_recent_decisions_def Let_def)

theorem search_no_remote_call_witness:
  "search_recent_decisions czech sample_remote 100 sample_question 0 200 = (Inr [], []) \<and>
   search_recent_decisions czech sample_remote 100 [] 14 200 = (Inr [], [])"
proof -
  have a: "extract_keywords czech sample_question 12 = [] \<or> (0 :: int) \<le> 0"
    by simp
  have "extract_keywords czech [] 12 = []"
    using extract_keywords_props [of czech "[]" 12] by blast
  then have b: "extract_keywords czech [] 12 = [] \<or> (14 :: int) \<le> 0"
    by blast
  from search_no_remote_call [OF a, of sample_remote 100 200]
    search_no_remote_call [OF b, of sample_remote 100 200]
  show ?thesis by blast
qed

subsection \<open>A day that fails is skipped\<close>










subsubsection \<open>The example indexes\<close>






















subsection \<open>Scoring and ranking\<close>

lemma search_candidates:
  "fst (search_recent_decisions U fetch day0 q lb mx) = Inr ds \<Longrightarrow>
   ds = take 5 (sort_by_score (all_candidates U fetch day0 (extract_keywords U q 12) mx lb))"
proof (cases "extract_keywords U q 12 = [] \<or> lb \<le> 0")
  case True
  assume "fst (search_recent_decisions U fetch day0 q lb mx) = Inr ds"
  with True have "ds = []"
    by (auto simp: search_recent_decisions_def Let_def)
  moreover from True have "all_candidates U fetch day0 (extract_keywords U q 12) mx lb = []"
    by (auto simp: no_keywords_no_candidates) (simp add: all_candidates_def)
  ultimately show ?thesis by (simp add: sort_by_score_def)
next
  case False
  assume a: "fst (search_recent_decisions U fetch day0 q lb mx) = Inr ds"
  with False obtain cs where
    cs: "fst (scan_days U fetch day0 (extract_keywords U q 12) mx [0..<nat lb] [] []) = Inr cs"
    and ds: "ds = take 5 (sort_by_score cs)"
    by (auto simp: search_recent_decisions_def Let_def slice_to_5 split: prod.splits sum.splits)
  from scan_days_candidates [OF cs] ds show ?thesis
    by (simp add: all_candidates_def)
qed

lemma sort_by_score_sorted: "sorted_wrt (\<lambda>a b. score b \<le> score a) (sort_by_score cs)"
proof -
  have "sorted (map (\<lambda>x. - score x) (sort_key (\<lambda>x. - score x) cs))"
    by (rule sorted_sort_key)
  then show ?thesis
    by (simp add: sort_by_score_def sorted_map)
qed

lemma sort_by_score_stable:
  "filter (\<lambda>x. score x = r) (sort_by_score cs) = filter (\<lambda>x. score x = r) cs"
proof -
  have "filter (\<lambda>x. - score x = - r) (sort_key (\<lambda>x. - score x) cs)
      = filter (\<lambda>x. - score x = - r) cs"
    by (rule sort_key_stable)
  then show ?thesis by (simp add: sort_by_score_def)
qed

text \<open>
  C4. An item whose blob contains none of the keywords of the question gives no
  candidate; an item with \<open>overlap\<close> keywords in its blob gives a candidate with the score
  \<open>overlap / max (len keywords) 1\<close>, which is above 0 and at most 1. When the search
  returns, its result is the first five of the candidates of all the days of the window,
  sorted into descending order of the score by a stable sort (candidates with equal
  scores stay in the order of the scan).
\<close>

theorem search_ranking:
  fixes U fetch day0 q lb mx
  defines "kws \<equiv> extract_keywords U q 12"
  defines "cands \<equiv> all_candidates U fetch day0 kws mx lb"
  assumes "fst (search_recent_decisions U fetch day0 q lb mx) = Inr ds"
  shows "ds = take 5 (sort_by_score cands) \<and>
    sorted_wrt (\<lambda>a b. score b \<le> score a) (sort_by_score cands) \<and>
    (\<forall>r. filter (\<lambda>x. score x = r) (sort_by_score cands) = filter (\<lambda>x. score x = r) cands) \<and>
    length (sort_by_score cands) = length cands \<and>
    (\<forall>c \<in> set cands. 0 < score c \<and> score c \<le> 1) \<and>
    (\<forall>it blob. item_blob U it = Inr blob \<longrightarrow>
       (overlap_of kws blob = 0 \<longrightarrow> item_candidate U kws (JObj it) = None) \<and>
       (0 < overlap_of kws blob \<longrightarrow>
          (\<exists>c. item_candidate U kws (JObj it) = Some c \<and>
               score c = rat_of_nat (overlap_of kws blob) / rat_of_nat (max (length kws) 1))))"
proof (intro conjI allI impI ballI)
  show "ds = take 5 (sort_by_score cands)"
    unfolding cands_def kws_def using assms(3) by (rule search_candidates)
  show "sorted_wrt (\<lambda>a b. score b \<le> score a) (sort_by_score cands)"
    by (rule sort_by_score_sorted)
  show "filter (\<lambda>x. score x = r) (sort_by_score cands) = filter (\<lambda>x. score x = r) cands" for r
    by (rule sort_by_score_stable)
  show "length (sort_by_score cands) = length cands"
    by (simp add: sort_by_score_def)
  show "0 < score c" "score c \<le> 1" if "c \<in> set cands" for c
    using that all_candidates_score unfolding cands_def by blast+
  show "item_candidate U kws (JObj it) = None"
    if "item_blob U it = Inr blob" "overlap_of kws blob = 0" for it blob
    using score_item_overlap [OF that(1), of kws] that(2) by (simp add: item_candidate_def)
  show "\<exists>c. item_candidate U kws (JObj it) = Some c \<and>
      score c = rat_of_nat (overlap_of kws blob) / rat_of_nat (max (length kws) 1)"
    if "item_blob U it = Inr blob" "0 < overlap_of kws blob" for it blob
    using score_item_overlap [OF that(1), of kws] that(2) by (auto simp: item_candidate_def)
qed

text \<open>
  On the example the contract case, with two of the three keywords, comes before the debt
  case, with one, although the scan met it later; the divorce case has none and is no
  candidate.
\<close>

theorem search_ranking_witness:
  "fst (search_recent_decisions czech sample_remote 100 sample_question 4 200)
     = Inr [decision_contract, decision_debt] \<and>
   [decision_contract, decision_debt]
     = take 5 (sort_by_score (all_candidates czech sample_remote 100
         (extract_keywords czech sample_question 12) 200 4)) \<and>
   map score [decision_contract, decision_debt] = [2 / 3, 1 / 3] \<and>
   item_candidate czech (extract_keywords czech sample_question 12) (JObj fields_divorce) = None \<and>
   (\<exists>c. item_candidate czech (extract_keywords czech sample_question 12) (JObj fields_contract) = Some c \<and>
        score c = rat_of_nat 2 / rat_of_nat (max (length (extract_keywords czech sample_question 12)) 1))"
proof -
  have h: "fst (search_recent_decisions czech sample_remote 100 sample_question 4 200)
      = Inr [decision_contract, decision_debt]"
    by (simp add: search_sample)
  have o0: "overlap_of (extract_keywords czech sample_question 12) (cz ''rozvod manz^elstvi/'') = 0"
    unfolding keywords_sample by (rule overlap_divorce)
  have o2: "overlap_of (extract_keywords czech sample_question 12)
      (cz ''dluh ze smlouvy smlouva o di/lo'') = 2"
    unfolding keywords_sample by (rule overlap_contract)
  have s: "map score [decision_contract, decision_debt] = [2 / 3, 1 / 3]"
    by (simp add: decision_contract_def decision_debt_def)
  note r = search_ranking [OF h]
  from r have a: "[decision_contract, decision_debt]
     = take 5 (sort_by_score (all_candidates czech sample_remote 100
         (extract_keywords czech sample_question 12) 200 4))"
    by blast
  from r blob_divorce o0
  have b: "item_candidate czech (extract_keywords czech sample_question 12) (JObj fields_divorce) = None"
    by blast
  from r blob_contract o2
  have c: "\<exists>c. item_candidate czech (extract_keywords czech sample_question 12) (JObj fields_contract) = Some c \<and>
        score c = rat_of_nat 2 / rat_of_nat (max (length (extract_keywords czech sample_question 12)) 1)"
    by (metis zero_less_numeral)
  from h a s b c show ?thesis by blast
qed

subsection \<open>An error of the pipeline is saved as a message\<close>

text \<open>
  C9. When the retrieval or the generation raises an exception (the merge raises none),
  \<open>Worker.run\<close> signals the exception with the light red and the sources \<open>[]\<close>, and
  \<open>on_done\<close>, in a window with an open session (\<open>on_send\<close> starts no worker without one),
  appends to the messages of that session an assistant message whose content is the type
  name and the message of the exception followed by the hint to check the configuration,
  with the light red and the sources \<open>[]\<close>.
\<close>

theorem pipeline_error_is_persisted:
  assumes "current_session_id W = Some sid"
    and "fst (search_recent_decisions U (fetch_day S) (today S) question
               (justice_lookback_days cfg) (justice_max_items_per_day cfg)) = Inl e \<or>
         (\<exists>ds. fst (search_recent_decisions U (fetch_day S) (today S) question
                      (justice_lookback_days cfg) (justice_max_items_per_day cfg)) = Inr ds \<and>
               generate S category question (decisions_to_sources ds) = Inl e)"
  shows "Worker_run U S cfg category question = (Failure e, Red, cz ''[]'') \<and>
    (\<exists>W'. on_done format_answer W (Worker_run U S cfg category question) now = Inr W' \<and>
       current_session_id W' = Some sid \<and>
       messages (db W') = messages (db W) @
         [\<lparr> m_id = next_message_id (db W), m_session_id = sid, m_role = cz ''assistant'',
            m_content = cz ''Nastala chyba: <b>'' @ exn_name e @ cz ''</b><br>'' @ exn_str e
              @ cz ''<br><br>Tip: zkontroluj `.env` a provider.'',
            m_traffic_light = Some Red, m_sources_json = Some (cz ''[]''),
            m_created_at = fst now \<rparr>])"
proof -
  from assms(2) have r: "Worker_run U S cfg category question = (Failure e, Red, cz ''[]'')"
    unfolding Worker_run_def by (auto split: sum.splits)
  have "on_done format_answer W (Failure e, Red, cz ''[]'') now =
      Inr (W\<lparr>db := (db W)\<lparr> messages := messages (db W) @
                     [\<lparr> m_id = next_message_id (db W), m_session_id = sid, m_role = cz ''assistant'',
                        m_content = error_html e, m_traffic_light = Some Red,
                        m_sources_json = Some (cz ''[]''), m_created_at = fst now \<rparr>],
                   sessions := map (\<lambda>s. if s_id s = sid then s\<lparr>s_updated_at := snd now\<rparr> else s)
                                   (sessions (db W)),
                   next_message_id := next_message_id (db W) + 1 \<rparr>\<rparr>)"
    unfolding on_done_def add_message_def assms(1) and_then_def by simp
  with r assms(1) show ?thesis
    unfolding error_html_def by simp
qed

lemma search_broken_index:
  "fst (search_recent_decisions czech (\<lambda>d. Inr (JArr [])) 100 sample_question 1 200)
   = Inl (no_get (JArr []))"
proof -
  have d: "[0..<nat 1] = [0]" by simp
  show ?thesis
    unfolding search_recent_decisions_def keywords_sample Let_def d
    by (simp add: sample_keywords_not_empty scan_day_def and_then_def)
qed

lemma search_no_window:
  "fst (search_recent_decisions czech sample_remote 100 sample_question 0 200) = Inr []"
  by (simp add: search_recent_decisions_def Let_def)

text \<open>
  With no API key the error message names \<open>LLMError\<close> and the missing key; with a list as
  the payload of a day it names \<open>AttributeError\<close>.
\<close>

theorem pipeline_error_is_persisted_witness:
  "(\<exists>W'. on_done plain_summary sample_window
           (Worker_run czech no_provider \<lparr> justice_lookback_days = 0, justice_max_items_per_day = 200 \<rparr>
              OBCANSKE_PRAVO sample_question) sample_now = Inr W' \<and>
         map m_content (messages (db W')) =
           [cz ''Nastala chyba: <b>LLMError</b><br>OPENAI_API_KEY chybi/ v .env<br><br>Tip: zkontroluj `.env` a provider.''] \<and>
         map m_traffic_light (messages (db W')) = [Some Red]) \<and>
   (\<exists>W'. on_done plain_summary sample_window
           (Worker_run czech broken_index \<lparr> justice_lookback_days = 1, justice_max_items_per_day = 200 \<rparr>
              OBCANSKE_PRAVO sample_question) sample_now = Inr W' \<and>
         map m_content (messages (db W')) =
           [cz ''Nastala chyba: <b>AttributeError</b><br>'' @ [0x27] @ cz ''list'' @ [0x27]
              @ cz '' object has no attribute '' @ [0x27] @ cz ''get'' @ [0x27]
              @ cz ''<br><br>Tip: zkontroluj `.env` a provider.''] \<and>
         map m_traffic_light (messages (db W')) = [Some Red])"
proof -
  have s: "current_session_id sample_window = Some 1"
    by (simp add: sample_window_def)
  have m: "messages (db sample_window) = []"
    by (simp add: sample_window_def)
  have g: "fst (search_recent_decisions czech (fetch_day no_provider) (today no_provider) sample_question
        (justice_lookback_days \<lparr> justice_lookback_days = 0, justice_max_items_per_day = 200 \<rparr>)
        (justice_max_items_per_day \<lparr> justice_lookback_days = 0, justice_max_items_per_day = 200 \<rparr>))
      = Inl missing_key \<or>
     (\<exists>ds. fst (search_recent_decisions czech (fetch_day no_provider) (today no_provider) sample_question
        (justice_lookback_days \<lparr> justice_lookback_days = 0, justice_max_items_per_day = 200 \<rparr>)
        (justice_max_items_per_day \<lparr> justice_lookback_days = 0, justice_max_items_per_day = 200 \<rparr>))
          = Inr ds \<and>
        generate no_provider OBCANSKE_PRAVO sample_question (decisions_to_sources ds) = Inl missing_key)"
    by (simp add: no_provider_def search_no_window)
  have b: "fst (search_recent_decisions czech (fetch_day broken_index) (today broken_index) sample_question
        (justice_lookback_days \<lparr> justice_lookback_days = 1, justice_max_items_per_day = 200 \<rparr>)
        (justice_max_items_per_day \<lparr> justice_lookback_days = 1, justice_max_items_per_day = 200 \<rparr>))
      = Inl (no_get (JArr [])) \<or>
     (\<exists>ds. fst (search_recent_decisions czech (fetch_day broken_index) (today broken_index) sample_question
        (justice_lookback_days \<lparr> justice_lookback_days = 1, justice_max_items_per_day = 200 \<rparr>)
        (justice_max_items_per_day \<lparr> justice_lookback_days = 1, justice_max_items_per_day = 200 \<rparr>))
          = Inr ds \<and>
        generate broken_index OBCANSKE_PRAVO sample_question (decisions_to_sources ds)
          = Inl (no_get (JArr [])))"
    by (simp add: broken_index_def search_broken_index)
  from pipeline_error_is_persisted [OF s g, of plain_summary sample_now] m
  have one: "\<exists>W'. on_done plain_summary sample_window
           (Worker_run czech no_provider \<lparr> justice_lookback_days = 0, justice_max_items_per_day = 200 \<rparr>
              OBCANSKE_PRAVO sample_question) sample_now = Inr W' \<and>
         map m_content (messages (db W')) =
           [cz ''Nastala chyba: <b>LLMError</b><br>OPENAI_API_KEY chybi/ v .env<br><br>Tip: zkontroluj `.env` a provider.''] \<and>
         map m_traffic_light (messages (db W')) = [Some Red]"
    by (auto simp: missing_key_def)
  from pipeline_error_is_persisted [OF s b, of plain_summary sample_now] m
  have two: "\<exists>W'. on_done plain_summary sample_window
           (Worker_run czech broken_index \<lparr> justice_lookback_days = 1, justice_max_items_per_day = 200 \<rparr>
              OBCANSKE_PRAVO sample_question) sample_now = Inr W' \<and>
         map m_content (messages (db W')) =
           [cz ''Nastala chyba: <b>AttributeError</b><br>'' @ [0x27] @ cz ''list'' @ [0x27]
              @ cz '' object has no attribute '' @ [0x27] @ cz ''get'' @ [0x27]
              @ cz ''<br><br>Tip: zkontroluj `.env` a provider.''] \<and>
         map m_traffic_light (messages (db W')) = [Some Red]"
    by (auto simp: no_get_def)
  from one two show ?thesis by blast
qed

end
